theory Spec2Isabelle
  imports Main "HOL-Library.AList"
begin

section \<open>Python values and tool calls\<close>

text \<open>
  The argument payload of a tool call is a Python value: a string, a mapping or a scalar.
  Only the distinctions the agent code makes are kept: \<open>isinstance(v, str)\<close>,
  \<open>isinstance(v, dict)\<close>, the truth value of \<open>v\<close> and \<open>str(v)\<close>.
  A missing dictionary key or attribute reads as \<open>None\<close>, as \<open>dict.get\<close> and
  \<open>getattr(_, _, None)\<close> return it.
\<close>

datatype scalar = SNone | SBool bool | SInt int

datatype pyval = PStr string | PDict "(string \<times> pyval) list" | PScalar scalar

fun truthy :: "pyval \<Rightarrow> bool" where
  "truthy (PStr s) = (s \<noteq> [])"
| "truthy (PDict kvs) = (kvs \<noteq> [])"
| "truthy (PScalar SNone) = False"
| "truthy (PScalar (SBool b)) = b"
| "truthy (PScalar (SInt n)) = (n \<noteq> 0)"

text \<open>Python's \<open>a or b\<close> on values, and on optional strings (\<open>None\<close> and \<open>""\<close> are false).\<close>

definition py_or :: "pyval \<Rightarrow> pyval \<Rightarrow> pyval" where
  "py_or a b = (if truthy a then a else b)"

definition str_or :: "string option \<Rightarrow> string \<Rightarrow> string" where
  "str_or a b = (case a of None \<Rightarrow> b | Some s \<Rightarrow> if s \<noteq> [] then s else b)"

text \<open>Decimal rendering, for \<open>str(n)\<close> and the f-string \<open>f"call_{i}"\<close>.\<close>

definition digit_char :: "nat \<Rightarrow> char" where
  "digit_char d = ''0123456789'' ! d"

fun str_nat :: "nat \<Rightarrow> string" where
  "str_nat n = (if n < 10 then [digit_char n] else str_nat (n div 10) @ [digit_char (n mod 10)])"

definition str_int :: "int \<Rightarrow> string" where
  "str_int i = (if i < 0 then CHR ''-'' # str_nat (nat (- i)) else str_nat (nat i))"

fun py_str :: "scalar \<Rightarrow> string" where
  "py_str SNone = ''None''"
| "py_str (SBool b) = (if b then ''True'' else ''False'')"
| "py_str (SInt i) = str_int i"

text \<open>
  A tool call arrives either as a dictionary (with an optional OpenAI-style
  \<open>function\<close> sub-dictionary) or as an object with attributes \<open>id\<close>, \<open>name\<close>, \<open>args\<close>.
\<close>

record fn_part =
  fn_name :: "string option"
  fn_arguments :: pyval

datatype tool_call =
    DictCall "string option" "fn_part option" "string option" pyval
  | ObjCall "string option" "string option" pyval

fun call_id :: "tool_call \<Rightarrow> string option" where
  "call_id (DictCall i f n a) = i"
| "call_id (ObjCall i n a) = i"

definition call_fallback_id :: "nat \<Rightarrow> string" where
  "call_fallback_id i = ''call_'' @ str_nat i"

text \<open>\<open>tool_id = tool_call.get('id') or f"call_{i}"\<close>\<close>

definition tool_id_of :: "nat \<Rightarrow> tool_call \<Rightarrow> string" where
  "tool_id_of i c = str_or (call_id c) (call_fallback_id i)"

text \<open>\<open>tool_name = fn.get('name') or tool_call.get('name') or ''\<close> with
  \<open>fn = tool_call.get('function') or {}\<close>; the object form reads the attribute only.\<close>

fun tool_name_of :: "tool_call \<Rightarrow> string" where
  "tool_name_of (DictCall i f n a) =
     str_or (case f of None \<Rightarrow> None | Some p \<Rightarrow> fn_name p) (str_or n [])"
| "tool_name_of (ObjCall i n a) = str_or n []"

text \<open>\<open>tool_args_raw = fn.get('arguments') or tool_call.get('args') or {}\<close>\<close>

fun supplied_args :: "tool_call \<Rightarrow> pyval" where
  "supplied_args (DictCall i f n a) =
     py_or (case f of None \<Rightarrow> PScalar SNone | Some p \<Rightarrow> fn_arguments p) a"
| "supplied_args (ObjCall i n a) = a"

definition tool_args_raw_of :: "tool_call \<Rightarrow> pyval" where
  "tool_args_raw_of c = py_or (supplied_args c) (PDict [])"

text \<open>
  Argument normalisation (\<open>mcp_agent.py\<close> 688-696, \<open>agent_orchestrator.py\<close> 205-214).
  \<open>json.loads\<close> is the standard library's; it is a parameter \<open>loads\<close>, \<open>None\<close> when it
  raises.
\<close>

definition raw_wrap :: "string \<Rightarrow> pyval" where
  "raw_wrap s = PDict [(''$raw'', PStr s)]"

fun parse_args :: "(string \<Rightarrow> pyval option) \<Rightarrow> pyval \<Rightarrow> pyval" where
  "parse_args loads (PStr s) =
     (if s \<noteq> [] then (case loads s of Some v \<Rightarrow> v | None \<Rightarrow> raw_wrap s) else PDict [])"
| "parse_args loads (PDict kvs) = PDict kvs"
| "parse_args loads (PScalar v) = raw_wrap (py_str v)"

definition tool_args :: "(string \<Rightarrow> pyval option) \<Rightarrow> tool_call \<Rightarrow> pyval" where
  "tool_args loads c = parse_args loads (tool_args_raw_of c)"

text \<open>A parser stub that rejects every text, for concrete runs.\<close>

definition loads_reject :: "string \<Rightarrow> pyval option" where
  "loads_reject s = None"

section \<open>Messages, events and the collaborators\<close>

datatype role = System | User | Assistant | Tool

datatype part = TextPart string | ImagePart string

datatype content = Text string | Parts "part list"

record message =
  msg_role :: role
  msg_content :: content
  msg_tool_calls :: "tool_call list option"
  msg_tool_call_id :: "string option"
  msg_name :: "string option"

definition system_message :: "string \<Rightarrow> message" where
  "system_message t =
     \<lparr>msg_role = System, msg_content = Text t, msg_tool_calls = None,
      msg_tool_call_id = None, msg_name = None\<rparr>"

definition user_message :: "string \<Rightarrow> message" where
  "user_message t =
     \<lparr>msg_role = User, msg_content = Text t, msg_tool_calls = None,
      msg_tool_call_id = None, msg_name = None\<rparr>"

definition assistant_message :: "string \<Rightarrow> message" where
  "assistant_message t =
     \<lparr>msg_role = Assistant, msg_content = Text t, msg_tool_calls = None,
      msg_tool_call_id = None, msg_name = None\<rparr>"

text \<open>\<open>{"role": "assistant", "content": "", "tool_calls": tool_calls_to_run}\<close>\<close>

definition assistant_tool_calls_message :: "tool_call list \<Rightarrow> message" where
  "assistant_tool_calls_message calls =
     \<lparr>msg_role = Assistant, msg_content = Text [], msg_tool_calls = Some calls,
      msg_tool_call_id = None, msg_name = None\<rparr>"

text \<open>\<open>{"role": "tool", "tool_call_id": tool_id, "name": tool_name, "content": str(tool_result)}\<close>\<close>

definition tool_message :: "string \<Rightarrow> string \<Rightarrow> string \<Rightarrow> message" where
  "tool_message tid nm res =
     \<lparr>msg_role = Tool, msg_content = Text res, msg_tool_calls = None,
      msg_tool_call_id = Some tid, msg_name = Some nm\<rparr>"

record token_usage =
  input_tokens :: "int option"
  output_tokens :: "int option"
  total_tokens :: "int option"

text \<open>
  The events the generator yields, by their \<open>type\<close> field. Fixed display texts
  (\<open>"content": "AI..."\<close> of a start, the sentence of a plan) are left out; the fields
  that depend on the run are kept. The last field of a tool event is \<open>progress\<close>
  (single agent, \<open>i/n\<close>) or \<open>by_role\<close> (pipeline).
\<close>

datatype tag = Progress nat nat | ByRole string

datatype event =
    Status
  | AiResponseStart
  | AiResponseChunk string
  | AiResponseEnd string
  | ToolPlan nat
  | ToolStart string string pyval tag
  | ToolEnd string string string "string option"
  | ToolError string string "string option"
  | FallbackTriggered nat
  | TokenUsage token_usage
  | Error string

fun is_response_start :: "event \<Rightarrow> bool" where
  "is_response_start AiResponseStart = True"
| "is_response_start e = False"

fun is_response_end :: "event \<Rightarrow> bool" where
  "is_response_end (AiResponseEnd t) = True"
| "is_response_end e = False"

fun is_error :: "event \<Rightarrow> bool" where
  "is_error (Error t) = True"
| "is_error e = False"

fun is_tool_start :: "event \<Rightarrow> bool" where
  "is_tool_start (ToolStart i n a t) = True"
| "is_tool_start e = False"

definition count_events :: "(event \<Rightarrow> bool) \<Rightarrow> event list \<Rightarrow> nat" where
  "count_events P es = length (filter P es)"

text \<open>
  The model client. One invocation of \<open>astream_events\<close> delivers a sequence of events
  and then either completes or raises; \<open>run_error\<close> is the exception's text. The
  finalised output carries the tool-call list (\<open>None\<close> and \<open>[]\<close> are both false, so
  both are \<open>[]\<close> here), the content and the usage dictionary, if any.
  A binding answers as a function of how many invocations the turn has made before and
  of the messages it is given, so that it need not repeat itself.
\<close>

record model_output =
  out_tool_calls :: "tool_call list"
  out_content :: string
  out_usage :: "token_usage option"

datatype stream_event =
    OnChatModelStream "string option"
  | OnChatModelEnd model_output
  | OnOtherEvent

record llm_run =
  run_events :: "stream_event list"
  run_error :: "string option"

type_synonym llm = "nat \<Rightarrow> message list \<Rightarrow> llm_run"

text \<open>A tool: its name and \<open>ainvoke\<close>, which returns the text of its result
  (\<open>Inr\<close>) or raises (\<open>Inl\<close>, the exception's text).\<close>

record tool =
  tool_name :: string
  ainvoke :: "nat \<Rightarrow> pyval \<Rightarrow> string + string"

text \<open>\<open>for tool in self.tools: if tool.name == tool_name: target_tool = tool; break\<close>\<close>

definition find_tool :: "tool list \<Rightarrow> string \<Rightarrow> tool option" where
  "find_tool ts nm = find (\<lambda>t. tool_name t = nm) ts"

subsection \<open>Fixed texts of the source, as UTF-8 bytes\<close>

definition utf8 :: "nat list \<Rightarrow> string" where
  "utf8 bs = map char_of bs"

text \<open>\<open>f"... '{tool_name}' ..."\<close>: tool not found.\<close>

definition not_found_text :: "string \<Rightarrow> string" where
  "not_found_text nm =
     utf8 [229, 183, 165, 229, 133, 183, 32, 39] @ nm
       @ utf8 [39, 32, 230, 156, 170, 230, 137, 190, 229, 136, 176]"

text \<open>The prefix of a failed tool's result text (\<open>"error: "\<close> in Chinese).\<close>

definition err_prefix :: string where
  "err_prefix = utf8 [233, 148, 153, 232, 175, 175, 58, 32]"

text \<open>The prefix of a raised tool's error text.\<close>

definition exec_err_prefix :: string where
  "exec_err_prefix =
     utf8 [229, 183, 165, 229, 133, 183, 230, 137, 167, 232, 161, 140, 229, 135, 186, 233,
           148, 153, 58, 32]"

definition separator :: string where
  "separator = [CHR 10, CHR 10]"

text \<open>The notice streamed when the model rejects non-text input.\<close>

definition multimodal_notice :: string where
  "multimodal_notice =
     utf8 [226, 154, 160, 239, 184, 143, 32, 229, 189, 147, 229, 137, 141, 230, 168, 161,
           229, 158, 139, 228, 184, 141, 230, 148, 175, 230, 140, 129, 229, 155, 190, 231,
           137, 135, 232, 175, 134, 229, 136, 171, 239, 188, 140, 229, 183, 178, 232, 135,
           170, 229, 138, 168, 232, 189, 172, 230, 141, 162, 228, 184, 186, 231, 186, 175,
           230, 150, 135, 230, 156, 172, 230, 168, 161, 229, 188, 143, 229, 164, 132, 231,
           144, 134, 227, 128, 130, 10, 10]"

text \<open>The fallback instruction: a head, the summary of the last three errors, a tail
  that asks for an answer from what is already known.\<close>

definition fallback_head :: string where
  "fallback_head =
     utf8 [229, 183, 165, 229, 133, 183, 232, 176, 131, 231, 148, 168, 229, 135, 186, 231,
           142, 176, 229, 188, 130, 229, 184, 184, 44, 232, 175, 183, 230, 160, 185, 230,
           141, 174, 229, 189, 147, 229, 137, 141, 229, 183, 178, 230, 156, 137, 228, 191,
           161, 230, 129, 175, 231, 187, 153, 231, 148, 168, 230, 136, 183, 228, 184, 128,
           228, 184, 170, 229, 144, 136, 231, 144, 134, 231, 154, 132, 229, 155, 158, 229,
           164, 141, 227, 128, 130, 10, 10, 233, 148, 153, 232, 175, 175, 230, 131, 133,
           229, 134, 181, 58, 10]"

definition fallback_tail :: string where
  "fallback_tail =
     utf8 [10, 10, 232, 175, 183, 229, 145, 138, 231, 159, 165, 231, 148, 168, 230, 136,
           183, 58, 10, 49, 46, 32, 231, 179, 187, 231, 187, 159, 230, 154, 130, 230, 151,
           182, 230, 151, 160, 230, 179, 149, 232, 142, 183, 229, 143, 150, 230, 137, 128,
           233, 156, 128, 230, 149, 176, 230, 141, 174, 10, 50, 46, 32, 230, 160, 185, 230,
           141, 174, 229, 175, 185, 232, 175, 157, 229, 142, 134, 229, 143, 178, 44, 231,
           187, 153, 229, 135, 186, 229, 159, 186, 228, 186, 142, 229, 183, 178, 231, 159,
           165, 228, 191, 161, 230, 129, 175, 231, 154, 132, 229, 187, 186, 232, 174, 174,
           230, 136, 150, 230, 155, 191, 228, 187, 163, 230, 150, 185, 230, 161, 136, 10,
           51, 46, 32, 232, 175, 173, 230, 176, 148, 229, 143, 139, 229, 165, 189, 228, 184,
           147, 228, 184, 154, 44, 228, 184, 141, 232, 166, 129, 232, 191, 135, 229, 136,
           134, 233, 129, 147, 230, 173, 137]"

text \<open>The answer given when the round budget is used up.\<close>

definition max_rounds_text :: string where
  "max_rounds_text =
     utf8 [229, 183, 178, 232, 190, 190, 229, 136, 176, 230, 156, 128, 229, 164, 167, 230,
           142, 168, 231, 144, 134, 232, 189, 174, 230, 149, 176, 239, 188, 140, 232, 175,
           183, 231, 188, 169, 229, 176, 143, 233, 151, 174, 233, 162, 152, 232, 140, 131,
           229, 155, 180, 230, 136, 150, 231, 168, 141, 229, 144, 142, 233, 135, 141, 232,
           175, 149, 227, 128, 130]"

text \<open>\<open>"\n".join(f"- {tool}: {error}" for err in tool_error_history[-3:])\<close>\<close>

fun join_lines :: "string list \<Rightarrow> string" where
  "join_lines [] = []"
| "join_lines [l] = l"
| "join_lines (l # ls) = l @ CHR 10 # join_lines ls"

definition last3 :: "'a list \<Rightarrow> 'a list" where
  "last3 xs = drop (length xs - 3) xs"

definition error_summary :: "(string \<times> string) list \<Rightarrow> string" where
  "error_summary hist = join_lines (map (\<lambda>(t, e). ''- '' @ t @ '': '' @ e) (last3 hist))"

definition fallback_prompt :: "(string \<times> string) list \<Rightarrow> string" where
  "fallback_prompt hist = fallback_head @ error_summary hist @ fallback_tail"

section \<open>The single agent: \<open>WebMCPAgent.chat_stream\<close>\<close>

text \<open>
  What a turn reads from its surroundings. \<open>build_shared_history\<close>,
  \<open>is_multimodal_error\<close> and \<open>convert_multimodal_to_text\<close> live in modules that are
  not part of the sources at hand and are parameters; \<open>build_shared_history\<close> is already
  applied to the turn's history and input, its remaining argument is \<open>force_text_only\<close>.
\<close>

record agent =
  tools :: "tool list"
  llm_tools :: llm
  tools_system_prompt :: string
  json_loads :: "string \<Rightarrow> pyval option"
  is_multimodal_error :: "string \<Rightarrow> bool"
  convert_multimodal_to_text :: "message list \<Rightarrow> message list"
  current_model_key :: string
  build_shared_history :: "bool \<Rightarrow> message list"

text \<open>
  The variables of \<open>chat_stream\<close>: those of the turn, those a round sets anew, the
  events yielded so far, and two logs that only record what was asked of the model and
  of the tools. \<open>non_multimodal_models\<close> is the agent's \<open>_non_multimodal_models\<close>, which
  outlives the turn.
\<close>

record turn_state =
  shared_history :: "message list"
  combined_response_started :: bool
  consecutive_tool_failures :: nat
  tool_error_history :: "(string \<times> string) list"
  non_multimodal_models :: "string set"
  emitted :: "event list"
  llm_invocations :: "message list list"
  tool_invocations :: "(string \<times> pyval) list"
  tool_calls_check :: "tool_call list"
  last_usage :: "token_usage option"
  buffered_chunks :: "string list"
  content_preview :: string
  response_started :: bool
  multimodal_fallback_attempted :: bool
  current_round_has_error :: bool

definition emit :: "event \<Rightarrow> turn_state \<Rightarrow> turn_state" where
  "emit e s = s\<lparr>emitted := emitted s @ [e]\<rparr>"

text \<open>\<open>if not combined_response_started: yield start; combined_response_started = True\<close>\<close>

definition start_once :: "turn_state \<Rightarrow> turn_state" where
  "start_once s =
     (if \<not> combined_response_started s
      then (emit AiResponseStart s)\<lparr>combined_response_started := True\<rparr> else s)"

text \<open>\<open>total_tokens = usage.get("total_tokens") or (input or 0) + (output or 0)\<close>\<close>

definition int_or0 :: "int option \<Rightarrow> int" where
  "int_or0 v = (case v of None \<Rightarrow> 0 | Some i \<Rightarrow> i)"

definition usage_of :: "token_usage \<Rightarrow> token_usage" where
  "usage_of u =
     u\<lparr>total_tokens :=
         Some (if int_or0 (total_tokens u) \<noteq> 0 then int_or0 (total_tokens u)
               else int_or0 (input_tokens u) + int_or0 (output_tokens u))\<rparr>"

text \<open>One event of the first stream of a round (lines 530-587).\<close>

fun on_stream_event :: "stream_event \<Rightarrow> turn_state \<Rightarrow> turn_state" where
  "on_stream_event (OnChatModelStream piece) s =
     (case piece of
        None \<Rightarrow> s
      | Some p \<Rightarrow>
          if p = [] then s
          else emit (AiResponseChunk p)
                 ((start_once s)\<lparr>response_started := True,
                                 buffered_chunks := buffered_chunks s @ [p]\<rparr>))"
| "on_stream_event (OnChatModelEnd out) s =
     s\<lparr>tool_calls_check := out_tool_calls out,
       content_preview := out_content out,
       last_usage := (case out_usage out of
                        None \<Rightarrow> last_usage s
                      | Some u \<Rightarrow> Some (usage_of u))\<rparr>"
| "on_stream_event OnOtherEvent s = s"

text \<open>One event of the retried stream (lines 616-644): no start, no usage.\<close>

fun on_retry_event :: "stream_event \<Rightarrow> turn_state \<Rightarrow> turn_state" where
  "on_retry_event (OnChatModelStream piece) s =
     (case piece of
        None \<Rightarrow> s
      | Some p \<Rightarrow>
          if p = [] then s
          else emit (AiResponseChunk p)
                 (s\<lparr>response_started := True,
                    buffered_chunks := buffered_chunks s @ [p]\<rparr>))"
| "on_retry_event (OnChatModelEnd out) s =
     s\<lparr>tool_calls_check := out_tool_calls out, content_preview := out_content out\<rparr>"
| "on_retry_event OnOtherEvent s = s"

fun stream_loop ::
  "(stream_event \<Rightarrow> turn_state \<Rightarrow> turn_state) \<Rightarrow> stream_event list \<Rightarrow> turn_state \<Rightarrow> turn_state"
where
  "stream_loop h [] s = s"
| "stream_loop h (e # es) s = stream_loop h es (h e s)"

definition invoke_llm :: "agent \<Rightarrow> message list \<Rightarrow> turn_state \<Rightarrow> llm_run \<times> turn_state" where
  "invoke_llm a msgs s =
     (llm_tools a (length (llm_invocations s)) msgs,
      s\<lparr>llm_invocations := llm_invocations s @ [msgs]\<rparr>)"

definition tools_messages :: "agent \<Rightarrow> turn_state \<Rightarrow> message list" where
  "tools_messages a s = system_message (tools_system_prompt a) # shared_history s"

text \<open>The handler of a failed stream (lines 590-653).\<close>

definition on_llm_failure :: "agent \<Rightarrow> message list \<Rightarrow> string \<Rightarrow> turn_state \<Rightarrow> turn_state" where
  "on_llm_failure a msgs error_msg s =
     (if \<not> multimodal_fallback_attempted s \<and> is_multimodal_error a error_msg then
        (let s1 = s\<lparr>non_multimodal_models :=
                      insert (current_model_key a) (non_multimodal_models s)\<rparr>;
             s2 = emit (AiResponseChunk multimodal_notice) (start_once s1);
             text_only_messages = convert_multimodal_to_text a msgs;
             s3 = s2\<lparr>multimodal_fallback_attempted := True\<rparr>;
             (run, s4) = invoke_llm a text_only_messages s3;
             s5 = stream_loop on_retry_event (run_events run) s4
         in case run_error run of
              None \<Rightarrow> s5
            | Some fallback_e \<Rightarrow> s5\<lparr>tool_calls_check := [], content_preview := []\<rparr>)
      else s\<lparr>tool_calls_check := [], content_preview := []\<rparr>)"

text \<open>The detection part of a round (lines 513-653).\<close>

definition round_start :: "turn_state \<Rightarrow> turn_state" where
  "round_start s =
     s\<lparr>tool_calls_check := [], last_usage := None, buffered_chunks := [],
       content_preview := [], response_started := False,
       multimodal_fallback_attempted := False\<rparr>"

definition detect_round :: "agent \<Rightarrow> turn_state \<Rightarrow> turn_state" where
  "detect_round a s =
     (let msgs = tools_messages a s;
          (run, s1) = invoke_llm a msgs (round_start s);
          s2 = stream_loop on_stream_event (run_events run) s1
      in case run_error run of
           None \<Rightarrow> s2
         | Some error_msg \<Rightarrow> on_llm_failure a msgs error_msg s2)"

text \<open>
  One tool call of the batch (lines 677-746); \<open>i\<close> counts from 1, \<open>n\<close> is the size of
  the batch. A tool message is appended on every path.
\<close>

definition exec_tool_call :: "agent \<Rightarrow> nat \<Rightarrow> nat \<Rightarrow> tool_call \<Rightarrow> turn_state \<Rightarrow> turn_state" where
  "exec_tool_call a n i tc s =
     (let tool_id = tool_id_of i tc;
          nm = tool_name_of tc;
          parsed_args = tool_args (json_loads a) tc;
          s1 = emit (ToolStart tool_id nm parsed_args (Progress i n)) s;
          (tool_result, s2) =
            (case find_tool (tools a) nm of
               None \<Rightarrow>
                 (err_prefix @ not_found_text nm,
                  (emit (ToolError tool_id (not_found_text nm) None) s1)
                    \<lparr>current_round_has_error := True,
                     tool_error_history := tool_error_history s1 @ [(nm, not_found_text nm)]\<rparr>)
             | Some target_tool \<Rightarrow>
                 (case ainvoke target_tool (length (tool_invocations s1)) parsed_args of
                    Inr res \<Rightarrow>
                      (res,
                       (emit (ToolEnd tool_id nm res None) s1)
                         \<lparr>tool_invocations := tool_invocations s1 @ [(nm, parsed_args)],
                          consecutive_tool_failures := 0\<rparr>)
                  | Inl e \<Rightarrow>
                      (err_prefix @ exec_err_prefix @ e,
                       (emit (ToolError tool_id (exec_err_prefix @ e) None) s1)
                         \<lparr>tool_invocations := tool_invocations s1 @ [(nm, parsed_args)],
                          current_round_has_error := True,
                          tool_error_history := tool_error_history s1 @ [(nm, e)]\<rparr>)))
      in s2\<lparr>shared_history := shared_history s2 @ [tool_message tool_id nm tool_result]\<rparr>)"

text \<open>
  \<open>for i, tool_call in enumerate(tool_calls_to_run, 1)\<close>. The loop's only \<open>break\<close> is
  under \<open>exit_to_stream\<close>, which is set to \<open>False\<close> and never assigned again.
\<close>

fun run_tool_calls :: "agent \<Rightarrow> nat \<Rightarrow> nat \<Rightarrow> tool_call list \<Rightarrow> turn_state \<Rightarrow> turn_state" where
  "run_tool_calls a n i [] s = s"
| "run_tool_calls a n i (tc # tcs) s = run_tool_calls a n (Suc i) tcs (exec_tool_call a n i tc s)"

definition max_consecutive_failures :: nat where
  "max_consecutive_failures = 3"

text \<open>The failure counter and the fallback, after the batch (lines 751-794).\<close>

definition update_failures :: "turn_state \<Rightarrow> turn_state" where
  "update_failures s =
     (if current_round_has_error s then
        (let s1 = s\<lparr>consecutive_tool_failures := consecutive_tool_failures s + 1\<rparr> in
         if consecutive_tool_failures s1 \<ge> max_consecutive_failures then
           (let s2 = s1\<lparr>shared_history :=
                          shared_history s1 @ [user_message (fallback_prompt (tool_error_history s1))]\<rparr>;
                s3 = emit (FallbackTriggered (consecutive_tool_failures s2)) s2
            in s3\<lparr>consecutive_tool_failures := 0, tool_error_history := []\<rparr>)
         else s1)
      else s)"

text \<open>The branch \<open>if tool_calls_check:\<close> (lines 655-801): the separator, the plan, the
  assistant message and the batch of calls, then the counter. It always continues the loop.\<close>

definition batch_start :: "turn_state \<Rightarrow> turn_state" where
  "batch_start s =
     (let s1 = (if response_started s \<and> buffered_chunks s \<noteq> []
                then (emit (AiResponseChunk separator) s)\<lparr>buffered_chunks := []\<rparr> else s);
          tool_calls_to_run = tool_calls_check s1;
          s2 = emit (ToolPlan (length tool_calls_to_run)) s1;
          s3 = s2\<lparr>shared_history :=
                    shared_history s2 @ [assistant_tool_calls_message tool_calls_to_run]\<rparr>
      in s3\<lparr>current_round_has_error := False\<rparr>)"

definition tool_batch :: "agent \<Rightarrow> turn_state \<Rightarrow> turn_state" where
  "tool_batch a s =
     run_tool_calls a (length (tool_calls_check s)) 1 (tool_calls_check s) (batch_start s)"

definition tool_round :: "agent \<Rightarrow> turn_state \<Rightarrow> turn_state" where
  "tool_round a s = update_failures (tool_batch a s)"

text \<open>The branch without tool calls (lines 803-826); it returns.\<close>

definition final_text :: "turn_state \<Rightarrow> string" where
  "final_text s = (if buffered_chunks s \<noteq> [] then concat (buffered_chunks s) else content_preview s)"

definition answer_round :: "turn_state \<Rightarrow> turn_state" where
  "answer_round s =
     (let s1 = (if combined_response_started s then emit (AiResponseEnd []) s
                else (let s' = (emit AiResponseStart s)\<lparr>combined_response_started := True\<rparr>;
                          s'' = (if final_text s \<noteq> [] then emit (AiResponseChunk (final_text s)) s'
                                 else s')
                      in emit (AiResponseEnd []) s''))
      in case last_usage s1 of None \<Rightarrow> s1 | Some u \<Rightarrow> emit (TokenUsage u) s1)"

text \<open>After the loop (lines 828-834).\<close>

definition budget_exhausted :: "turn_state \<Rightarrow> turn_state" where
  "budget_exhausted s =
     emit (AiResponseEnd max_rounds_text)
       (emit (AiResponseChunk max_rounds_text) (emit AiResponseStart s))"

datatype decision = ANSWER_DECIDED | TOOL_DECIDED

definition decide :: "turn_state \<Rightarrow> decision" where
  "decide s = (if tool_calls_check s \<noteq> [] then TOOL_DECIDED else ANSWER_DECIDED)"

datatype outcome = Answered | BudgetExhausted

text \<open>
  \<open>while round_index < max_rounds: round_index += 1; ...\<close>. The result is how the turn
  ended, the final \<open>round_index\<close> and the final state.
\<close>

function round_loop :: "agent \<Rightarrow> nat \<Rightarrow> nat \<Rightarrow> turn_state \<Rightarrow> outcome \<times> nat \<times> turn_state" where
  "round_loop a max_rounds round_index s =
     (if round_index < max_rounds then
        (case decide (detect_round a s) of
           TOOL_DECIDED \<Rightarrow> round_loop a max_rounds (Suc round_index) (tool_round a (detect_round a s))
         | ANSWER_DECIDED \<Rightarrow> (Answered, Suc round_index, answer_round (detect_round a s)))
      else (BudgetExhausted, round_index, budget_exhausted s))"
  by pat_completeness auto
termination
  by (relation "measure (\<lambda>(a, max_rounds, round_index, s). max_rounds - round_index)") auto

definition max_rounds :: nat where
  "max_rounds = 25"

text \<open>The state in which the loop starts (lines 434, 492-507).\<close>

definition initial_state :: "agent \<Rightarrow> string set \<Rightarrow> turn_state" where
  "initial_state a marked =
     \<lparr>shared_history = build_shared_history a (current_model_key a \<in> marked),
      combined_response_started = False,
      consecutive_tool_failures = 0,
      tool_error_history = [],
      non_multimodal_models = marked,
      emitted = [Status],
      llm_invocations = [],
      tool_invocations = [],
      tool_calls_check = [],
      last_usage = None,
      buffered_chunks = [],
      content_preview = [],
      response_started = False,
      multimodal_fallback_attempted = False,
      current_round_has_error = False\<rparr>"

definition chat_stream :: "agent \<Rightarrow> string set \<Rightarrow> outcome \<times> nat \<times> turn_state" where
  "chat_stream a marked = round_loop a max_rounds 0 (initial_state a marked)"

section \<open>The role pipeline: \<open>AgentOrchestrator.chat_stream\<close>\<close>

text \<open>
  A role of the agent file. \<open>role_model_profile\<close> stands for
  \<open>(role.get("model_profile") or "").strip()\<close>. The file's \<open>max_rounds\<close> is read by the
  source and never used; it is left out.
\<close>

record role_spec =
  role_id :: "string option"
  role_system_prompt :: "string option"
  role_model_profile :: string

record agent_spec =
  roles :: "role_spec list"
  tools_allowlist :: "string list"

text \<open>
  The orchestrator's collaborators: the tools of its tools manager, the bundle lookup
  (\<open>Inl\<close> when it raises; the bundle is reduced to its \<open>llm_tools\<close> binding), the JSON
  parser, and the shared history its message processor builds for the turn (with
  \<open>force_text_only = False\<close>, as the source passes it).
\<close>

record orchestrator =
  orch_tools :: "tool list"
  get_llm_bundle :: "string \<Rightarrow> string + llm"
  orch_json_loads :: "string \<Rightarrow> pyval option"
  orch_shared_history :: "message list"

record pipe_state =
  p_shared_history :: "message list"
  p_role_outputs :: "(string \<times> string) list"
  p_any_streamed :: bool
  p_emitted :: "event list"
  p_llm_invocations :: "message list list"
  p_tool_invocations :: "(string \<times> pyval) list"
  p_messages :: "message list"
  p_role_last_content :: string
  p_role_prefix_sent :: bool
  p_tool_calls :: "tool_call list"
  p_content_preview :: string
  p_buffered_chunks :: "string list"

definition p_emit :: "event \<Rightarrow> pipe_state \<Rightarrow> pipe_state" where
  "p_emit e s = s\<lparr>p_emitted := p_emitted s @ [e]\<rparr>"

definition role_prefix :: "string \<Rightarrow> string" where
  "role_prefix rid = ''['' @ rid @ ''] ''"

text \<open>\<open>f"... '{tool_name}' ..."\<close>: the tool is not in the allowlist (event text).\<close>

definition not_allowed_text :: "string \<Rightarrow> string" where
  "not_allowed_text nm =
     utf8 [229, 183, 165, 229, 133, 183, 32, 39] @ nm
       @ utf8 [39, 32, 228, 184, 141, 229, 156, 168, 229, 133, 129, 232, 174, 184, 229, 136,
               151, 232, 161, 168, 228, 184, 173]"

text \<open>The content of the tool message that records a rejection.\<close>

definition rejected_text :: "string \<Rightarrow> string" where
  "rejected_text nm =
     utf8 [233, 148, 153, 232, 175, 175, 58, 32, 229, 183, 165, 229, 133, 183, 32, 39] @ nm
       @ utf8 [39, 32, 230, 156, 170, 232, 162, 171, 229, 133, 129, 232, 174, 184]"

text \<open>The chunk that reports a role whose model invocation raised.\<close>

definition role_failed_text :: "string \<Rightarrow> string \<Rightarrow> string" where
  "role_failed_text rid e =
     utf8 [10, 226, 154, 160, 239, 184, 143, 32] @ rid
       @ utf8 [32, 230, 137, 167, 232, 161, 140, 229, 164, 177, 232, 180, 165, 58, 32] @ e
       @ [CHR 10]"

definition agent_failed_text :: "string \<Rightarrow> string" where
  "agent_failed_text e =
     utf8 [65, 103, 101, 110, 116, 32, 230, 137, 167, 232, 161, 140, 229, 135, 186, 233,
           148, 153, 58, 32] @ e"

text \<open>One event of a role's stream (lines 130-158).\<close>

fun on_role_event :: "string \<Rightarrow> stream_event \<Rightarrow> pipe_state \<Rightarrow> pipe_state" where
  "on_role_event rid (OnChatModelStream piece) s =
     (case piece of
        None \<Rightarrow> s
      | Some p \<Rightarrow>
          if p = [] then s
          else (let s1 = (if \<not> p_role_prefix_sent s
                          then (p_emit (AiResponseChunk (role_prefix rid @ p)) s)
                                 \<lparr>p_role_prefix_sent := True\<rparr>
                          else p_emit (AiResponseChunk p) s)
                in s1\<lparr>p_any_streamed := True, p_buffered_chunks := p_buffered_chunks s1 @ [p]\<rparr>))"
| "on_role_event rid (OnChatModelEnd out) s =
     s\<lparr>p_tool_calls := out_tool_calls out,
       p_content_preview :=
         (if out_content out \<noteq> [] then out_content out else concat (p_buffered_chunks s))\<rparr>"
| "on_role_event rid OnOtherEvent s = s"

fun role_stream_loop :: "string \<Rightarrow> stream_event list \<Rightarrow> pipe_state \<Rightarrow> pipe_state" where
  "role_stream_loop rid [] s = s"
| "role_stream_loop rid (e # es) s = role_stream_loop rid es (on_role_event rid e s)"

text \<open>The allowlist test of line 194.\<close>

definition rejected :: "string list \<Rightarrow> string \<Rightarrow> bool" where
  "rejected allowlist nm = (allowlist \<noteq> [] \<and> nm \<noteq> [] \<and> nm \<notin> set allowlist)"

text \<open>One tool call of a role's batch (lines 182-243).\<close>

definition role_exec_tool_call ::
  "orchestrator \<Rightarrow> string list \<Rightarrow> string \<Rightarrow> nat \<Rightarrow> tool_call \<Rightarrow> pipe_state \<Rightarrow> pipe_state"
where
  "role_exec_tool_call orch allowlist rid i tc s =
     (let tool_id = tool_id_of i tc;
          nm = tool_name_of tc
      in if rejected allowlist nm then
           (p_emit (ToolError tool_id (not_allowed_text nm) (Some rid)) s)
             \<lparr>p_messages := p_messages s @ [tool_message tool_id nm (rejected_text nm)]\<rparr>
         else
           (let parsed_args = tool_args (orch_json_loads orch) tc;
                s1 = p_emit (ToolStart tool_id nm parsed_args (ByRole rid)) s;
                (tool_result, s2) =
                  (case find_tool (orch_tools orch) nm of
                     None \<Rightarrow>
                       (err_prefix @ not_found_text nm,
                        p_emit (ToolError tool_id (not_found_text nm) (Some rid)) s1)
                   | Some target_tool \<Rightarrow>
                       (case ainvoke target_tool (length (p_tool_invocations s1)) parsed_args of
                          Inr res \<Rightarrow>
                            (res,
                             (p_emit (ToolEnd tool_id nm res (Some rid)) s1)
                               \<lparr>p_tool_invocations :=
                                  p_tool_invocations s1 @ [(nm, parsed_args)]\<rparr>)
                        | Inl e \<Rightarrow>
                            (err_prefix @ exec_err_prefix @ e,
                             (p_emit (ToolError tool_id (exec_err_prefix @ e) (Some rid)) s1)
                               \<lparr>p_tool_invocations :=
                                  p_tool_invocations s1 @ [(nm, parsed_args)]\<rparr>)))
            in s2\<lparr>p_messages := p_messages s2 @ [tool_message tool_id nm tool_result]\<rparr>))"

fun role_tool_calls ::
  "orchestrator \<Rightarrow> string list \<Rightarrow> string \<Rightarrow> nat \<Rightarrow> tool_call list \<Rightarrow> pipe_state \<Rightarrow> pipe_state"
where
  "role_tool_calls orch allowlist rid i [] s = s"
| "role_tool_calls orch allowlist rid i (tc # tcs) s =
     role_tool_calls orch allowlist rid (Suc i) tcs (role_exec_tool_call orch allowlist rid i tc s)"

text \<open>The plan and the batch of an iteration that asked for tools (lines 179-243).\<close>

definition role_tool_batch :: "orchestrator \<Rightarrow> string list \<Rightarrow> string \<Rightarrow> pipe_state \<Rightarrow> pipe_state" where
  "role_tool_batch orch allowlist rid s =
     role_tool_calls orch allowlist rid 1 (p_tool_calls s)
       (p_emit (ToolPlan (length (p_tool_calls s))) s)"

text \<open>An iteration without tool calls writes the role's text back (lines 166-176).\<close>

definition role_finish :: "string \<Rightarrow> pipe_state \<Rightarrow> pipe_state" where
  "role_finish rid s =
     (let s1 = s\<lparr>p_role_last_content := p_content_preview s,
                 p_messages := p_messages s @ [assistant_message (p_content_preview s)],
                 p_shared_history :=
                   p_shared_history s @ [assistant_message (role_prefix rid @ p_content_preview s)]\<rparr>
      in if p_role_prefix_sent s1 then p_emit (AiResponseChunk [CHR 10]) s1 else s1)"

definition max_tool_iterations :: nat where
  "max_tool_iterations = 6"

text \<open>\<open>while tool_iterations < max_tool_iterations: tool_iterations += 1; ...\<close>
  (lines 116-243).\<close>

definition role_run :: "llm \<Rightarrow> pipe_state \<Rightarrow> llm_run" where
  "role_run role_llm s = role_llm (length (p_llm_invocations s)) (p_messages s)"

text \<open>The state after the stream of an iteration has been consumed (lines 120-160).\<close>

definition role_detect :: "string \<Rightarrow> llm \<Rightarrow> pipe_state \<Rightarrow> pipe_state" where
  "role_detect rid role_llm s =
     role_stream_loop rid (run_events (role_run role_llm s))
       (s\<lparr>p_tool_calls := [], p_content_preview := [], p_buffered_chunks := [],
          p_llm_invocations := p_llm_invocations s @ [p_messages s]\<rparr>)"

function role_loop ::
  "orchestrator \<Rightarrow> string list \<Rightarrow> string \<Rightarrow> llm \<Rightarrow> nat \<Rightarrow> pipe_state \<Rightarrow> pipe_state"
where
  "role_loop orch allowlist rid role_llm tool_iterations s =
     (if tool_iterations < max_tool_iterations then
        (case run_error (role_run role_llm s) of
           Some e \<Rightarrow> p_emit (AiResponseChunk (role_failed_text rid e)) (role_detect rid role_llm s)
         | None \<Rightarrow>
             if p_tool_calls (role_detect rid role_llm s) = []
             then role_finish rid (role_detect rid role_llm s)
             else role_loop orch allowlist rid role_llm (Suc tool_iterations)
                    (role_tool_batch orch allowlist rid (role_detect rid role_llm s)))
      else s)"
  by pat_completeness auto
termination
  by (relation "measure (\<lambda>(orch, allowlist, rid, role_llm, tool_iterations, s).
                  max_tool_iterations - tool_iterations)") auto

text \<open>One role (lines 92-246).\<close>

definition run_role :: "orchestrator \<Rightarrow> agent_spec \<Rightarrow> llm \<Rightarrow> role_spec \<Rightarrow> pipe_state \<Rightarrow> pipe_state" where
  "run_role orch spec default_llm_tools r s =
     (let rid = str_or (role_id r) ''role'';
          sys_prompt = str_or (role_system_prompt r) [];
          role_llm_tools =
            (if role_model_profile r \<noteq> [] then
               (case get_llm_bundle orch (role_model_profile r) of
                  Inr b \<Rightarrow> b
                | Inl e \<Rightarrow> default_llm_tools)
             else default_llm_tools);
          s0 = s\<lparr>p_messages := system_message sys_prompt # p_shared_history s,
                 p_role_last_content := [], p_role_prefix_sent := False\<rparr>;
          s1 = role_loop orch (tools_allowlist spec) rid role_llm_tools 0 s0
      in s1\<lparr>p_role_outputs := AList.update rid (p_role_last_content s1) (p_role_outputs s1)\<rparr>)"

fun run_roles :: "orchestrator \<Rightarrow> agent_spec \<Rightarrow> llm \<Rightarrow> role_spec list \<Rightarrow> pipe_state \<Rightarrow> pipe_state" where
  "run_roles orch spec d [] s = s"
| "run_roles orch spec d (r # rs) s = run_roles orch spec d rs (run_role orch spec d r s)"

text \<open>\<open>role_outputs.get("writer") or (list(role_outputs.values())[-1] if role_outputs else "")\<close>\<close>

definition pipeline_final_text :: "(string \<times> string) list \<Rightarrow> string" where
  "pipeline_final_text outs =
     str_or (map_of outs ''writer'') (if outs = [] then [] else snd (last outs))"

definition pipe_initial :: "orchestrator \<Rightarrow> pipe_state" where
  "pipe_initial orch =
     \<lparr>p_shared_history = orch_shared_history orch,
      p_role_outputs = [],
      p_any_streamed = False,
      p_emitted = [],
      p_llm_invocations = [],
      p_tool_invocations = [],
      p_messages = [],
      p_role_last_content = [],
      p_role_prefix_sent = False,
      p_tool_calls = [],
      p_content_preview = [],
      p_buffered_chunks = []\<rparr>"

text \<open>The pipeline run (lines 64-256). A lookup of the backing profile that raises is
  caught at the turn boundary and reported as one \<open>error\<close> event.\<close>

definition orchestrate :: "orchestrator \<Rightarrow> string \<Rightarrow> agent_spec \<Rightarrow> pipe_state" where
  "orchestrate orch backing_profile spec =
     (case get_llm_bundle orch backing_profile of
        Inl e \<Rightarrow> p_emit (Error (agent_failed_text e)) (pipe_initial orch)
      | Inr default_llm_tools \<Rightarrow>
          (let s0 = p_emit AiResponseStart (pipe_initial orch);
               s1 = run_roles orch spec default_llm_tools (roles spec) s0;
               s2 = (if \<not> p_any_streamed s1 \<and> pipeline_final_text (p_role_outputs s1) \<noteq> []
                     then p_emit (AiResponseChunk (pipeline_final_text (p_role_outputs s1))) s1
                     else s1)
           in p_emit (AiResponseEnd []) s2))"

section \<open>Model bindings: \<open>ModelManager.get_or_create_llm_instances\<close>\<close>

text \<open>
  \<open>os.environ\<close> is a map from names to values. The model client (\<open>ChatOpenAI\<close> and
  \<open>bind_tools\<close>) belongs to a library: it is a parameter that sees the environment at the
  time of the call and may raise.
\<close>

type_synonym environ = "string \<Rightarrow> string option"

record profile =
  api_key :: string
  base_url :: string
  model :: string

record 'b instances =
  b_llm :: 'b
  b_llm_nontool :: 'b
  b_llm_tools :: 'b

record 'b client =
  chat_openai :: "environ \<Rightarrow> profile \<Rightarrow> string + 'b"
  bind_tools :: "'b \<Rightarrow> 'b"

record 'b model_manager =
  llm_profiles :: "string \<Rightarrow> profile option"
  default_profile_id :: string
  llm_cache :: "string \<Rightarrow> 'b instances option"

definition OPENAI_API_KEY :: string where
  "OPENAI_API_KEY = ''OPENAI_API_KEY''"

definition OPENAI_BASE_URL :: string where
  "OPENAI_BASE_URL = ''OPENAI_BASE_URL''"

text \<open>\<open>pid = profile_id or self.default_profile_id\<close>, then the default again when
  \<open>pid\<close> is not a profile (lines 238-240).\<close>

definition resolve_pid :: "'b model_manager \<Rightarrow> string \<Rightarrow> string" where
  "resolve_pid mm profile_id =
     (let pid = (if profile_id \<noteq> [] then profile_id else default_profile_id mm)
      in if llm_profiles mm pid = None then default_profile_id mm else pid)"

text \<open>The body of the \<open>try\<close> (lines 251-268): the overrides, then the three
  constructions; the result is the environment the \<open>finally\<close> block finds and what was
  built.\<close>

definition override_env :: "profile \<Rightarrow> environ \<Rightarrow> environ" where
  "override_env cfg env =
     (let env1 = (if api_key cfg \<noteq> [] then env(OPENAI_API_KEY \<mapsto> api_key cfg) else env)
      in if base_url cfg \<noteq> [] then env1(OPENAI_BASE_URL \<mapsto> base_url cfg) else env1)"

definition build_bundle :: "'b client \<Rightarrow> environ \<Rightarrow> profile \<Rightarrow> string + 'b instances" where
  "build_bundle c env cfg =
     (case chat_openai c env cfg of
        Inl e \<Rightarrow> Inl e
      | Inr base_llm \<Rightarrow>
          (case chat_openai c env cfg of
             Inl e \<Rightarrow> Inl e
           | Inr nontool \<Rightarrow>
               Inr \<lparr>b_llm = base_llm, b_llm_nontool = nontool,
                    b_llm_tools = bind_tools c base_llm\<rparr>))"

text \<open>The \<open>finally\<close> block (lines 269-274).\<close>

definition restore_env :: "string option \<Rightarrow> string option \<Rightarrow> environ \<Rightarrow> environ" where
  "restore_env prev_key prev_base env =
     (let env1 = (case prev_key of None \<Rightarrow> env | Some k \<Rightarrow> env(OPENAI_API_KEY \<mapsto> k))
      in case prev_base of None \<Rightarrow> env1 | Some b \<Rightarrow> env1(OPENAI_BASE_URL \<mapsto> b))"

text \<open>The result is what the call returns or raises (\<open>Inl\<close>), the manager with its
  cache, and the environment the call leaves behind.\<close>

definition get_or_create_llm_instances ::
  "'b client \<Rightarrow> 'b model_manager \<Rightarrow> environ \<Rightarrow> string
     \<Rightarrow> (string + 'b instances) \<times> 'b model_manager \<times> environ"
where
  "get_or_create_llm_instances c mm env profile_id =
     (let pid = resolve_pid mm profile_id
      in case llm_cache mm pid of
           Some cached \<Rightarrow> (Inr cached, mm, env)
         | None \<Rightarrow>
             (case llm_profiles mm pid of
                None \<Rightarrow> (Inl ''KeyError'', mm, env)
              | Some cfg \<Rightarrow>
                  (let prev_key = env OPENAI_API_KEY;
                       prev_base = env OPENAI_BASE_URL;
                       env2 = override_env cfg env;
                       built = build_bundle c env2 cfg;
                       env3 = restore_env prev_key prev_base env2
                   in case built of
                        Inl e \<Rightarrow> (Inl e, mm, env3)
                      | Inr b \<Rightarrow> (Inr b, mm\<lparr>llm_cache := (llm_cache mm)(pid \<mapsto> b)\<rparr>, env3))))"

section \<open>Concrete collaborators\<close>

text \<open>Stubs on which the functions above are run: a tool that answers, a tool that
  raises, model bindings with a fixed behaviour, and a client that records the
  credentials it finds in the environment.\<close>

definition price_tool :: tool where
  "price_tool = \<lparr>tool_name = ''get_price'', ainvoke = (\<lambda>k args. Inr ''42'')\<rparr>"

definition broken_tool :: tool where
  "broken_tool = \<lparr>tool_name = ''broken'', ainvoke = (\<lambda>k args. Inl ''boom'')\<rparr>"

definition price_call :: "string \<Rightarrow> tool_call" where
  "price_call cid = DictCall (Some cid) None (Some ''get_price'') (PDict [])"

definition broken_call :: "string \<Rightarrow> tool_call" where
  "broken_call cid = DictCall (Some cid) None (Some ''broken'') (PDict [])"

definition streams_then_calls :: "string list \<Rightarrow> tool_call list \<Rightarrow> llm_run" where
  "streams_then_calls pieces calls =
     \<lparr>run_events = map (\<lambda>p. OnChatModelStream (Some p)) pieces
                     @ [OnChatModelEnd \<lparr>out_tool_calls = calls, out_content = concat pieces,
                                        out_usage = None\<rparr>],
      run_error = None\<rparr>"

definition raises :: "string \<Rightarrow> llm_run" where
  "raises e = \<lparr>run_events = [], run_error = Some e\<rparr>"

text \<open>A binding that streams a token and asks for the price on every invocation.\<close>

definition llm_always_tool :: llm where
  "llm_always_tool k msgs = streams_then_calls [''x''] [price_call ''c1'']"


text \<open>A binding whose every invocation raises.\<close>

definition llm_raising :: llm where
  "llm_raising k msgs = raises ''image input is not supported''"

definition stub_agent :: "tool list \<Rightarrow> llm \<Rightarrow> agent" where
  "stub_agent ts l =
     \<lparr>tools = ts, llm_tools = l, tools_system_prompt = ''sys'',
      json_loads = loads_reject, is_multimodal_error = (\<lambda>e. e = ''image input is not supported''),
      convert_multimodal_to_text = map (\<lambda>m. m\<lparr>msg_content := Text []\<rparr>),
      current_model_key = ''m@u'',
      build_shared_history = (\<lambda>text_only. [user_message ''hi''])\<rparr>"

definition stub_orchestrator :: "tool list \<Rightarrow> llm \<Rightarrow> orchestrator" where
  "stub_orchestrator ts l =
     \<lparr>orch_tools = ts, get_llm_bundle = (\<lambda>pid. Inr l), orch_json_loads = loads_reject,
      orch_shared_history = [user_message ''hi'']\<rparr>"

text \<open>An agent whose model raises the multimodal error at every invocation and whose only
  tool raises.\<close>

definition failing_agent :: agent where
  "failing_agent = stub_agent [broken_tool] llm_raising"

text \<open>A stream that finalises with a content and tool calls without streaming a token.\<close>

definition finalises :: "string \<Rightarrow> tool_call list \<Rightarrow> llm_run" where
  "finalises text calls =
     \<lparr>run_events = [OnChatModelEnd \<lparr>out_tool_calls = calls, out_content = text,
                                       out_usage = None\<rparr>],
      run_error = None\<rparr>"

text \<open>A binding that asks for the same calls at every invocation; a batch with a call of
  a tool that is not registered and a call of the tool that raises; and a batch whose
  second call has an empty id while the first has the id \<open>call_2\<close>.\<close>

definition llm_requesting :: "tool_call list \<Rightarrow> llm" where
  "llm_requesting calls k msgs = finalises [] calls"

definition mixed_calls :: "tool_call list" where
  "mixed_calls = [price_call ''c1'', broken_call ''c2'']"

definition mixed_agent :: agent where
  "mixed_agent = stub_agent [broken_tool] (llm_requesting mixed_calls)"

definition mixed_orchestrator :: orchestrator where
  "mixed_orchestrator = stub_orchestrator [broken_tool] (llm_requesting mixed_calls)"

definition clash_calls :: "tool_call list" where
  "clash_calls = [broken_call ''call_2'', broken_call []]"

definition clash_agent :: agent where
  "clash_agent = stub_agent [broken_tool] (llm_requesting clash_calls)"

definition clash_orchestrator :: orchestrator where
  "clash_orchestrator = stub_orchestrator [broken_tool] (llm_requesting clash_calls)"

text \<open>A binding that asks for one call of the raising tool in its first two invocations
  and for two such calls from then on.\<close>

definition llm_breaking :: llm where
  "llm_breaking k msgs =
     (if k < 2 then finalises [] [broken_call ''c1'']
      else finalises [] [broken_call ''c1'', broken_call ''c2''])"

definition breaking_agent :: agent where
  "breaking_agent = stub_agent [broken_tool] llm_breaking"






text \<open>A client whose binding is the model name with the credentials read at
  construction.\<close>

definition recording_client :: "(string \<times> string option \<times> string option) client" where
  "recording_client =
     \<lparr>chat_openai = (\<lambda>env cfg. Inr (model cfg, env OPENAI_API_KEY, env OPENAI_BASE_URL)),
      bind_tools = (\<lambda>b. b)\<rparr>"

definition fast_profile :: profile where
  "fast_profile = \<lparr>api_key = ''k1'', base_url = ''http://b1'', model = ''m1''\<rparr>"

definition one_profile_manager :: "(string \<times> string option \<times> string option) model_manager" where
  "one_profile_manager =
     \<lparr>llm_profiles = [''fast'' \<mapsto> fast_profile], default_profile_id = ''fast'',
      llm_cache = Map.empty\<rparr>"

section \<open>Observations on runs and histories\<close>

text \<open>What one stream delivers: the non-empty content pieces, in order, and the last
  finalised output.\<close>

fun streamed_pieces :: "stream_event list \<Rightarrow> string list" where
  "streamed_pieces [] = []"
| "streamed_pieces (OnChatModelStream (Some p) # es) =
     (if p = [] then streamed_pieces es else p # streamed_pieces es)"
| "streamed_pieces (e # es) = streamed_pieces es"

fun final_output :: "stream_event list \<Rightarrow> model_output option" where
  "final_output [] = None"
| "final_output (OnChatModelEnd out # es) =
     (case final_output es of None \<Rightarrow> Some out | Some later \<Rightarrow> Some later)"
| "final_output (e # es) = final_output es"

text \<open>
  The two invocations a round can make: the first, on the round's messages, and the
  retry, on the converted messages; and the states right after each stream has been
  consumed.
\<close>

definition first_run :: "agent \<Rightarrow> turn_state \<Rightarrow> llm_run" where
  "first_run a s = llm_tools a (length (llm_invocations s)) (tools_messages a s)"

definition retry_run :: "agent \<Rightarrow> turn_state \<Rightarrow> llm_run" where
  "retry_run a s =
     llm_tools a (Suc (length (llm_invocations s)))
       (convert_multimodal_to_text a (tools_messages a s))"

definition after_first :: "agent \<Rightarrow> turn_state \<Rightarrow> turn_state" where
  "after_first a s =
     stream_loop on_stream_event (run_events (first_run a s))
       ((round_start s)\<lparr>llm_invocations := llm_invocations s @ [tools_messages a s]\<rparr>)"

definition before_retry :: "agent \<Rightarrow> turn_state \<Rightarrow> turn_state" where
  "before_retry a s =
     (emit (AiResponseChunk multimodal_notice)
        (start_once ((after_first a s)
           \<lparr>non_multimodal_models :=
              insert (current_model_key a) (non_multimodal_models (after_first a s))\<rparr>)))
     \<lparr>multimodal_fallback_attempted := True,
      llm_invocations :=
        llm_invocations s @ [tools_messages a s, convert_multimodal_to_text a (tools_messages a s)]\<rparr>"

definition after_retry :: "agent \<Rightarrow> turn_state \<Rightarrow> turn_state" where
  "after_retry a s = stream_loop on_retry_event (run_events (retry_run a s)) (before_retry a s)"

definition no_decision :: "turn_state \<Rightarrow> turn_state" where
  "no_decision s = s\<lparr>tool_calls_check := [], content_preview := []\<rparr>"

text \<open>The response chunks among events, the events that make up the response (its start,
  its chunks and its end), and the \<open>token_usage\<close> event that closes a turn when a usage
  was captured.\<close>

fun is_response_chunk :: "event \<Rightarrow> bool" where
  "is_response_chunk (AiResponseChunk t) = True"
| "is_response_chunk e = False"



text \<open>
  What the collaborators make of a batch, read off the tools alone: for a call made when
  \<open>k\<close> tool invocations have been made before, the entry that a failure leaves in the
  error history (the tool is not registered, or it raises), \<open>None\<close> when the call
  succeeds; and the same for the calls of a batch in request order. Only a registered
  tool is invoked.
\<close>

definition call_error :: "agent \<Rightarrow> nat \<Rightarrow> tool_call \<Rightarrow> (string \<times> string) option" where
  "call_error a k tc =
     (case find_tool (tools a) (tool_name_of tc) of
        None \<Rightarrow> Some (tool_name_of tc, not_found_text (tool_name_of tc))
      | Some t \<Rightarrow>
          (case ainvoke t k (tool_args (json_loads a) tc) of
             Inl e \<Rightarrow> Some (tool_name_of tc, e)
           | Inr res \<Rightarrow> None))"

fun call_errors :: "agent \<Rightarrow> nat \<Rightarrow> tool_call list \<Rightarrow> (string \<times> string) option list" where
  "call_errors a k [] = []"
| "call_errors a k (tc # tcs) =
     call_error a k tc
       # call_errors a (if find_tool (tools a) (tool_name_of tc) = None then k else Suc k) tcs"

definition batch_errors :: "agent \<Rightarrow> turn_state \<Rightarrow> (string \<times> string) option list" where
  "batch_errors a s = call_errors a (length (tool_invocations s)) (tool_calls_check s)"

definition failures :: "(string \<times> string) option list \<Rightarrow> (string \<times> string) list" where
  "failures errs = concat (map (\<lambda>e. case e of None \<Rightarrow> [] | Some x \<Rightarrow> [x]) errs)"

text \<open>The state at the head of the loop after \<open>n\<close> rounds that were all tool rounds.\<close>

fun tool_rounds :: "agent \<Rightarrow> nat \<Rightarrow> turn_state \<Rightarrow> turn_state" where
  "tool_rounds a 0 s = s"
| "tool_rounds a (Suc n) s = tool_round a (detect_round a (tool_rounds a n s))"

text \<open>The state in which the loop of a role starts (lines 107-115): the role's messages
  are its system prompt followed by the shared history.\<close>

definition role_begin :: "string \<Rightarrow> pipe_state \<Rightarrow> pipe_state" where
  "role_begin sys_prompt s =
     s\<lparr>p_messages := system_message sys_prompt # p_shared_history s,
       p_role_last_content := [], p_role_prefix_sent := False\<rparr>"

text \<open>The ids the model gave to the calls of a batch are well formed when none is missing
  or empty and no two are equal.\<close>

definition model_ids_ok :: "tool_call list \<Rightarrow> bool" where
  "model_ids_ok calls =
     (list_all (\<lambda>c. case call_id c of None \<Rightarrow> False | Some tid \<Rightarrow> tid \<noteq> []) calls
      \<and> distinct (map call_id calls))"

text \<open>How many tool messages of a list answer the call with a given id.\<close>

definition answers :: "string \<Rightarrow> message list \<Rightarrow> nat" where
  "answers tid ms =
     length (filter (\<lambda>m. msg_role m = Tool \<and> msg_tool_call_id m = Some tid) ms)"

text \<open>The ids under which the calls of a batch are answered, in request order
  (\<open>enumerate(tool_calls, 1)\<close>).\<close>

definition batch_ids :: "tool_call list \<Rightarrow> string list" where
  "batch_ids calls = map (\<lambda>(i, c). tool_id_of i c) (enumerate 1 calls)"

text \<open>An event that closes the call with a given id: its \<open>tool_end\<close> or its
  \<open>tool_error\<close>.\<close>

fun closes_call :: "string \<Rightarrow> event \<Rightarrow> bool" where
  "closes_call tid (ToolEnd i n r b) = (i = tid)"
| "closes_call tid (ToolError i e b) = (i = tid)"
| "closes_call tid e = False"

section \<open>Argument normalisation\<close>

text \<open>
  Claim C6, as stated, fails on a false value: the integer \<open>0\<close> is not a string and not a
  mapping, yet it is not wrapped as \<open>{"$raw": "0"}\<close>; and the empty string of an
  OpenAI-style \<open>function.arguments\<close>, which the parser rejects, is not wrapped as
  \<open>{"$raw": ""}\<close>. The \<open>or {}\<close> that ends the extraction of the arguments turns every
  false value into the empty mapping before the normalisation sees it.
\<close>

theorem normalise_zero_counterexample:
  "tool_args loads_reject (ObjCall (Some ''c1'') (Some ''t'') (PScalar (SInt 0))) = PDict []
   \<and> PDict [] \<noteq> raw_wrap (py_str (SInt 0))
   \<and> loads_reject [] = None
   \<and> tool_args loads_reject
         (DictCall (Some ''c2'') (Some \<lparr>fn_name = Some ''t'', fn_arguments = PStr []\<rparr>) None
            (PScalar SNone)) = PDict []
   \<and> PDict [] \<noteq> raw_wrap []"
  by (simp add: tool_args_def tool_args_raw_of_def py_or_def raw_wrap_def loads_reject_def)

text \<open>
  Claim C6, amended. For the arguments a tool call supplies: a non-empty string is parsed,
  and wrapped as \<open>{"$raw": text}\<close> when the parser fails; a mapping is used unchanged; any
  other true value is wrapped as \<open>{"$raw": str(value)}\<close>; a false value (the empty
  string, \<open>None\<close>, \<open>False\<close>, \<open>0\<close>, the empty mapping, or no arguments at all) gives
  the empty mapping.
\<close>

theorem tool_args_normalised:
  "(\<forall>t. supplied_args c = PStr t \<and> t \<noteq> [] \<longrightarrow>
        tool_args loads c = (case loads t of Some v \<Rightarrow> v | None \<Rightarrow> raw_wrap t))
   \<and> (\<forall>kvs. supplied_args c = PDict kvs \<longrightarrow> tool_args loads c = PDict kvs)
   \<and> (\<forall>v. supplied_args c = PScalar v \<and> truthy (PScalar v) \<longrightarrow>
        tool_args loads c = raw_wrap (py_str v))
   \<and> (\<not> truthy (supplied_args c) \<longrightarrow> tool_args loads c = PDict [])"
  by (auto simp: tool_args_def tool_args_raw_of_def py_or_def)

text \<open>The four cases of C6 on concrete calls: an unparsable string, a mapping, the
  integer 7 and the empty string.\<close>

theorem tool_args_normalised_witness:
  "tool_args loads_reject (ObjCall None (Some ''t'') (PStr ''{bad'')) = raw_wrap ''{bad''
   \<and> tool_args loads_reject (ObjCall None (Some ''t'') (PDict [(''k'', PStr ''v'')]))
       = PDict [(''k'', PStr ''v'')]
   \<and> tool_args loads_reject (ObjCall None (Some ''t'') (PScalar (SInt 7))) = raw_wrap ''7''
   \<and> tool_args loads_reject (ObjCall None (Some ''t'') (PStr [])) = PDict []"
  using tool_args_normalised [of "ObjCall None (Some ''t'') (PStr ''{bad'')" loads_reject]
        tool_args_normalised [of "ObjCall None (Some ''t'') (PDict [(''k'', PStr ''v'')])" loads_reject]
        tool_args_normalised [of "ObjCall None (Some ''t'') (PScalar (SInt 7))" loads_reject]
        tool_args_normalised [of "ObjCall None (Some ''t'') (PStr [])" loads_reject]
  by (simp add: loads_reject_def str_int_def digit_char_def)

section \<open>Credentials around the construction of a binding\<close>

text \<open>
  Claim C9 at a state where the API key is not set: the profile's key is written into
  the environment for the construction and is still there afterwards, because the
  \<open>finally\<close> block writes a previous value back only when there was one.
\<close>

theorem binding_leaves_credentials_overridden:
  "(Map.empty :: environ) OPENAI_API_KEY = None
   \<and> snd (snd (get_or_create_llm_instances recording_client one_profile_manager Map.empty ''fast''))
       OPENAI_API_KEY = Some ''k1''"
  by (simp add: get_or_create_llm_instances_def resolve_pid_def one_profile_manager_def
      override_env_def restore_env_def build_bundle_def recording_client_def fast_profile_def
      OPENAI_API_KEY_def OPENAI_BASE_URL_def Let_def)

section \<open>The allowlist of the role pipeline\<close>

text \<open>
  Claim C8, as stated, fails for the empty allowlist, which is the default of the agent
  file: no name is in it, and yet the call is not rejected; the tool is invoked.
\<close>

theorem empty_allowlist_counterexample:
  "''get_price'' \<notin> set ([] :: string list)
   \<and> p_tool_invocations
        (role_exec_tool_call (stub_orchestrator [price_tool] llm_always_tool) [] ''planner'' 1
           (price_call ''c1'') (pipe_initial (stub_orchestrator [price_tool] llm_always_tool)))
       = [(''get_price'', PDict [])]"
  by (simp add: role_exec_tool_call_def rejected_def stub_orchestrator_def price_tool_def
      price_call_def pipe_initial_def p_emit_def find_tool_def tool_args_def
      tool_args_raw_of_def py_or_def str_or_def Let_def)

text \<open>
  Claim C8, amended. When the agent's allowlist is not empty, a tool call whose name is
  not empty and not in the allowlist is rejected at once: its only event is a
  \<open>tool_error\<close>, a tool message that records the rejection is appended to the role's
  messages, and neither a tool nor the model is invoked.
\<close>

theorem allowlist_rejects_without_invoking:
  "allowlist \<noteq> [] \<and> tool_name_of tc \<noteq> [] \<and> tool_name_of tc \<notin> set allowlist \<longrightarrow>
     p_emitted (role_exec_tool_call orch allowlist rid i tc s)
       = p_emitted s @ [ToolError (tool_id_of i tc) (not_allowed_text (tool_name_of tc)) (Some rid)]
     \<and> p_messages (role_exec_tool_call orch allowlist rid i tc s)
       = p_messages s @ [tool_message (tool_id_of i tc) (tool_name_of tc) (rejected_text (tool_name_of tc))]
     \<and> p_tool_invocations (role_exec_tool_call orch allowlist rid i tc s) = p_tool_invocations s
     \<and> p_llm_invocations (role_exec_tool_call orch allowlist rid i tc s) = p_llm_invocations s"
  by (simp add: role_exec_tool_call_def rejected_def p_emit_def Let_def)

text \<open>C8 on a call of \<open>get_price\<close> under the allowlist \<open>[search]\<close>.\<close>

theorem allowlist_rejects_without_invoking_witness:
  "p_emitted
     (role_exec_tool_call (stub_orchestrator [price_tool] llm_always_tool) [''search''] ''planner'' 1
        (price_call ''c1'') (pipe_initial (stub_orchestrator [price_tool] llm_always_tool)))
     = [ToolError ''c1'' (not_allowed_text ''get_price'') (Some ''planner'')]
   \<and> p_tool_invocations
     (role_exec_tool_call (stub_orchestrator [price_tool] llm_always_tool) [''search''] ''planner'' 1
        (price_call ''c1'') (pipe_initial (stub_orchestrator [price_tool] llm_always_tool)))
     = []"
  using allowlist_rejects_without_invoking
    [of "[''search'']" "price_call ''c1''" "stub_orchestrator [price_tool] llm_always_tool"
        "''planner''" 1 "pipe_initial (stub_orchestrator [price_tool] llm_always_tool)"]
  by (simp add: price_call_def str_or_def tool_id_of_def pipe_initial_def)

text \<open>
  Claim C10. A call rejected by the allowlist yields its \<open>tool_error\<close> and nothing
  else, so no \<open>tool_start\<close> precedes it; a call that passes the check yields its
  \<open>tool_start\<close> followed by exactly one event that closes it, a \<open>tool_end\<close> or a
  \<open>tool_error\<close>.
\<close>

theorem rejected_call_has_no_tool_start:
  "(rejected allowlist (tool_name_of tc) \<longrightarrow>
       p_emitted (role_exec_tool_call orch allowlist rid i tc s)
         = p_emitted s @ [ToolError (tool_id_of i tc) (not_allowed_text (tool_name_of tc)) (Some rid)])
   \<and> (\<not> rejected allowlist (tool_name_of tc) \<longrightarrow>
       (\<exists>e. p_emitted (role_exec_tool_call orch allowlist rid i tc s)
              = p_emitted s @ [ToolStart (tool_id_of i tc) (tool_name_of tc)
                                 (tool_args (orch_json_loads orch) tc) (ByRole rid), e]
            \<and> closes_call (tool_id_of i tc) e))"
  by (auto simp: role_exec_tool_call_def p_emit_def Let_def split: option.splits sum.splits)

lemma closes_call_not_start: "closes_call tid e \<Longrightarrow> \<not> is_tool_start e"
  by (cases e) auto

text \<open>C10 on a call of \<open>get_price\<close>, rejected under \<open>[search]\<close> and allowed under
  \<open>[get_price]\<close>.\<close>

theorem rejected_call_has_no_tool_start_witness:
  "rejected [''search''] (tool_name_of (price_call ''c1''))
   \<and> count_events is_tool_start (p_emitted
     (role_exec_tool_call (stub_orchestrator [price_tool] llm_always_tool) [''search''] ''planner'' 1
        (price_call ''c1'') (pipe_initial (stub_orchestrator [price_tool] llm_always_tool)))) = 0
   \<and> \<not> rejected [''get_price''] (tool_name_of (price_call ''c1''))
   \<and> count_events is_tool_start (p_emitted
     (role_exec_tool_call (stub_orchestrator [price_tool] llm_always_tool) [''get_price''] ''planner'' 1
        (price_call ''c1'') (pipe_initial (stub_orchestrator [price_tool] llm_always_tool)))) = 1"
  using rejected_call_has_no_tool_start
    [of "[''search'']" "price_call ''c1''" "stub_orchestrator [price_tool] llm_always_tool"
        "''planner''" 1 "pipe_initial (stub_orchestrator [price_tool] llm_always_tool)"]
    rejected_call_has_no_tool_start
    [of "[''get_price'']" "price_call ''c1''" "stub_orchestrator [price_tool] llm_always_tool"
        "''planner''" 1 "pipe_initial (stub_orchestrator [price_tool] llm_always_tool)"]
  by (auto simp: price_call_def str_or_def tool_id_of_def pipe_initial_def rejected_def
      count_events_def closes_call_not_start)

section \<open>Facts about the single agent's functions\<close>

subsection \<open>Counting events\<close>

lemma count_events_Nil [simp]: "count_events P [] = 0"
  by (simp add: count_events_def)

lemma count_events_Cons [simp]:
  "count_events P (e # es) = (if P e then Suc (count_events P es) else count_events P es)"
  by (simp add: count_events_def)

lemma count_events_append [simp]:
  "count_events P (xs @ ys) = count_events P xs + count_events P ys"
  by (simp add: count_events_def)

lemma count_events_chunks [simp]:
  "count_events is_response_start (map AiResponseChunk ps) = 0"
  "count_events is_response_end (map AiResponseChunk ps) = 0"
  "count_events is_error (map AiResponseChunk ps) = 0"
  "count_events is_tool_start (map AiResponseChunk ps) = 0"
  by (induction ps) auto

subsection \<open>The streams of a round\<close>

lemma on_stream_event_frame:
  "shared_history (on_stream_event e s) = shared_history s"
  "llm_invocations (on_stream_event e s) = llm_invocations s"
  "tool_invocations (on_stream_event e s) = tool_invocations s"
  "non_multimodal_models (on_stream_event e s) = non_multimodal_models s"
  "consecutive_tool_failures (on_stream_event e s) = consecutive_tool_failures s"
  "tool_error_history (on_stream_event e s) = tool_error_history s"
  "multimodal_fallback_attempted (on_stream_event e s) = multimodal_fallback_attempted s"
  "current_round_has_error (on_stream_event e s) = current_round_has_error s"
  by (cases e; simp add: emit_def start_once_def split: option.splits)+

lemma stream_frame:
  "shared_history (stream_loop on_stream_event evs s) = shared_history s"
  "llm_invocations (stream_loop on_stream_event evs s) = llm_invocations s"
  "tool_invocations (stream_loop on_stream_event evs s) = tool_invocations s"
  "non_multimodal_models (stream_loop on_stream_event evs s) = non_multimodal_models s"
  "consecutive_tool_failures (stream_loop on_stream_event evs s) = consecutive_tool_failures s"
  "tool_error_history (stream_loop on_stream_event evs s) = tool_error_history s"
  "multimodal_fallback_attempted (stream_loop on_stream_event evs s) = multimodal_fallback_attempted s"
  "current_round_has_error (stream_loop on_stream_event evs s) = current_round_has_error s"
  by (induction evs arbitrary: s; simp add: on_stream_event_frame)+

lemma stream_buffered:
  "buffered_chunks (stream_loop on_stream_event evs s) = buffered_chunks s @ streamed_pieces evs"
proof (induction evs arbitrary: s)
  case Nil
  then show ?case by simp
next
  case (Cons e evs)
  then show ?case
    by (cases e) (auto simp: emit_def start_once_def split: option.splits)
qed

lemma stream_tool_calls:
  "tool_calls_check (stream_loop on_stream_event evs s)
     = (case final_output evs of None \<Rightarrow> tool_calls_check s | Some out \<Rightarrow> out_tool_calls out)"
proof (induction evs arbitrary: s)
  case Nil
  then show ?case by simp
next
  case (Cons e evs)
  then show ?case
    by (cases e) (auto simp: emit_def start_once_def split: option.splits)
qed

lemma stream_content:
  "content_preview (stream_loop on_stream_event evs s)
     = (case final_output evs of None \<Rightarrow> content_preview s | Some out \<Rightarrow> out_content out)"
proof (induction evs arbitrary: s)
  case Nil
  then show ?case by simp
next
  case (Cons e evs)
  then show ?case
    by (cases e) (auto simp: emit_def start_once_def split: option.splits)
qed

lemma stream_response_started:
  "response_started (stream_loop on_stream_event evs s)
     = (response_started s \<or> streamed_pieces evs \<noteq> [])"
proof (induction evs arbitrary: s)
  case Nil
  then show ?case by simp
next
  case (Cons e evs)
  then show ?case
    by (cases e) (auto simp: emit_def start_once_def split: option.splits)
qed

lemma stream_combined:
  "combined_response_started (stream_loop on_stream_event evs s)
     = (combined_response_started s \<or> streamed_pieces evs \<noteq> [])"
proof (induction evs arbitrary: s)
  case Nil
  then show ?case by simp
next
  case (Cons e evs)
  then show ?case
    by (cases e) (auto simp: emit_def start_once_def split: option.splits)
qed

lemma stream_emitted:
  "emitted (stream_loop on_stream_event evs s)
     = emitted s
       @ (if \<not> combined_response_started s \<and> streamed_pieces evs \<noteq> [] then [AiResponseStart] else [])
       @ map AiResponseChunk (streamed_pieces evs)"
proof (induction evs arbitrary: s)
  case Nil
  then show ?case by simp
next
  case (Cons e evs)
  then show ?case
    by (cases e) (auto simp: emit_def start_once_def split: option.splits)
qed

lemma on_retry_event_frame:
  "shared_history (on_retry_event e s) = shared_history s"
  "llm_invocations (on_retry_event e s) = llm_invocations s"
  "tool_invocations (on_retry_event e s) = tool_invocations s"
  "non_multimodal_models (on_retry_event e s) = non_multimodal_models s"
  "consecutive_tool_failures (on_retry_event e s) = consecutive_tool_failures s"
  "tool_error_history (on_retry_event e s) = tool_error_history s"
  "multimodal_fallback_attempted (on_retry_event e s) = multimodal_fallback_attempted s"
  "current_round_has_error (on_retry_event e s) = current_round_has_error s"
  "combined_response_started (on_retry_event e s) = combined_response_started s"
  "last_usage (on_retry_event e s) = last_usage s"
  by (cases e; simp add: emit_def split: option.splits)+

lemma retry_frame:
  "shared_history (stream_loop on_retry_event evs s) = shared_history s"
  "llm_invocations (stream_loop on_retry_event evs s) = llm_invocations s"
  "tool_invocations (stream_loop on_retry_event evs s) = tool_invocations s"
  "non_multimodal_models (stream_loop on_retry_event evs s) = non_multimodal_models s"
  "consecutive_tool_failures (stream_loop on_retry_event evs s) = consecutive_tool_failures s"
  "tool_error_history (stream_loop on_retry_event evs s) = tool_error_history s"
  "multimodal_fallback_attempted (stream_loop on_retry_event evs s) = multimodal_fallback_attempted s"
  "current_round_has_error (stream_loop on_retry_event evs s) = current_round_has_error s"
  "combined_response_started (stream_loop on_retry_event evs s) = combined_response_started s"
  "last_usage (stream_loop on_retry_event evs s) = last_usage s"
  by (induction evs arbitrary: s; simp add: on_retry_event_frame)+

lemma retry_buffered:
  "buffered_chunks (stream_loop on_retry_event evs s) = buffered_chunks s @ streamed_pieces evs"
proof (induction evs arbitrary: s)
  case Nil
  then show ?case by simp
next
  case (Cons e evs)
  then show ?case
    by (cases e) (auto simp: emit_def split: option.splits)
qed

lemma retry_response_started:
  "response_started (stream_loop on_retry_event evs s)
     = (response_started s \<or> streamed_pieces evs \<noteq> [])"
proof (induction evs arbitrary: s)
  case Nil
  then show ?case by simp
next
  case (Cons e evs)
  then show ?case
    by (cases e) (auto simp: emit_def split: option.splits)
qed

lemma retry_emitted:
  "emitted (stream_loop on_retry_event evs s)
     = emitted s @ map AiResponseChunk (streamed_pieces evs)"
proof (induction evs arbitrary: s)
  case Nil
  then show ?case by simp
next
  case (Cons e evs)
  then show ?case
    by (cases e) (auto simp: emit_def split: option.splits)
qed

lemma retry_tool_calls:
  "tool_calls_check (stream_loop on_retry_event evs s)
     = (case final_output evs of None \<Rightarrow> tool_calls_check s | Some out \<Rightarrow> out_tool_calls out)"
proof (induction evs arbitrary: s)
  case Nil
  then show ?case by simp
next
  case (Cons e evs)
  then show ?case
    by (cases e) (auto simp: emit_def split: option.splits)
qed

lemma retry_content:
  "content_preview (stream_loop on_retry_event evs s)
     = (case final_output evs of None \<Rightarrow> content_preview s | Some out \<Rightarrow> out_content out)"
proof (induction evs arbitrary: s)
  case Nil
  then show ?case by simp
next
  case (Cons e evs)
  then show ?case
    by (cases e) (auto simp: emit_def split: option.splits)
qed

lemmas stream_simps =
  stream_frame stream_buffered stream_tool_calls stream_content stream_response_started
  stream_combined stream_emitted retry_frame retry_buffered retry_response_started
  retry_emitted retry_tool_calls retry_content

subsection \<open>Detection\<close>

lemma after_first_fields:
  "shared_history (after_first a s) = shared_history s"
  "llm_invocations (after_first a s) = llm_invocations s @ [tools_messages a s]"
  "tool_invocations (after_first a s) = tool_invocations s"
  "non_multimodal_models (after_first a s) = non_multimodal_models s"
  "consecutive_tool_failures (after_first a s) = consecutive_tool_failures s"
  "tool_error_history (after_first a s) = tool_error_history s"
  "multimodal_fallback_attempted (after_first a s) = False"
  "current_round_has_error (after_first a s) = current_round_has_error s"
  "buffered_chunks (after_first a s) = streamed_pieces (run_events (first_run a s))"
  "response_started (after_first a s) = (streamed_pieces (run_events (first_run a s)) \<noteq> [])"
  "combined_response_started (after_first a s)
     = (combined_response_started s \<or> streamed_pieces (run_events (first_run a s)) \<noteq> [])"
  "emitted (after_first a s)
     = emitted s
       @ (if \<not> combined_response_started s \<and> streamed_pieces (run_events (first_run a s)) \<noteq> []
          then [AiResponseStart] else [])
       @ map AiResponseChunk (streamed_pieces (run_events (first_run a s)))"
  by (simp_all add: after_first_def round_start_def stream_frame stream_buffered
      stream_response_started stream_combined stream_emitted)

lemma after_first_decision:
  "tool_calls_check (after_first a s)
     = (case final_output (run_events (first_run a s)) of None \<Rightarrow> [] | Some out \<Rightarrow> out_tool_calls out)"
  "content_preview (after_first a s)
     = (case final_output (run_events (first_run a s)) of None \<Rightarrow> [] | Some out \<Rightarrow> out_content out)"
  by (simp_all add: after_first_def round_start_def stream_tool_calls stream_content
      split: option.splits)

lemma before_retry_fields:
  "shared_history (before_retry a s) = shared_history s"
  "llm_invocations (before_retry a s)
     = llm_invocations s @ [tools_messages a s, convert_multimodal_to_text a (tools_messages a s)]"
  "tool_invocations (before_retry a s) = tool_invocations s"
  "non_multimodal_models (before_retry a s) = insert (current_model_key a) (non_multimodal_models s)"
  "consecutive_tool_failures (before_retry a s) = consecutive_tool_failures s"
  "tool_error_history (before_retry a s) = tool_error_history s"
  "current_round_has_error (before_retry a s) = current_round_has_error s"
  "buffered_chunks (before_retry a s) = buffered_chunks (after_first a s)"
  "response_started (before_retry a s) = response_started (after_first a s)"
  "combined_response_started (before_retry a s) = True"
  "tool_calls_check (before_retry a s) = tool_calls_check (after_first a s)"
  "content_preview (before_retry a s) = content_preview (after_first a s)"
  "emitted (before_retry a s)
     = emitted (after_first a s)
       @ (if combined_response_started (after_first a s) then [] else [AiResponseStart])
       @ [AiResponseChunk multimodal_notice]"
  by (simp_all add: before_retry_def emit_def start_once_def after_first_fields)

lemma after_retry_fields:
  "shared_history (after_retry a s) = shared_history s"
  "llm_invocations (after_retry a s)
     = llm_invocations s @ [tools_messages a s, convert_multimodal_to_text a (tools_messages a s)]"
  "tool_invocations (after_retry a s) = tool_invocations s"
  "non_multimodal_models (after_retry a s) = insert (current_model_key a) (non_multimodal_models s)"
  "consecutive_tool_failures (after_retry a s) = consecutive_tool_failures s"
  "tool_error_history (after_retry a s) = tool_error_history s"
  "current_round_has_error (after_retry a s) = current_round_has_error s"
  "buffered_chunks (after_retry a s)
     = streamed_pieces (run_events (first_run a s)) @ streamed_pieces (run_events (retry_run a s))"
  "response_started (after_retry a s)
     = (streamed_pieces (run_events (first_run a s)) \<noteq> []
        \<or> streamed_pieces (run_events (retry_run a s)) \<noteq> [])"
  "combined_response_started (after_retry a s) = True"
  "emitted (after_retry a s)
     = emitted (before_retry a s) @ map AiResponseChunk (streamed_pieces (run_events (retry_run a s)))"
  by (simp_all add: after_retry_def retry_frame retry_buffered retry_response_started
      retry_emitted before_retry_fields after_first_fields)

lemma no_decision_fields:
  "shared_history (no_decision s) = shared_history s"
  "llm_invocations (no_decision s) = llm_invocations s"
  "tool_invocations (no_decision s) = tool_invocations s"
  "non_multimodal_models (no_decision s) = non_multimodal_models s"
  "consecutive_tool_failures (no_decision s) = consecutive_tool_failures s"
  "tool_error_history (no_decision s) = tool_error_history s"
  "current_round_has_error (no_decision s) = current_round_has_error s"
  "buffered_chunks (no_decision s) = buffered_chunks s"
  "response_started (no_decision s) = response_started s"
  "combined_response_started (no_decision s) = combined_response_started s"
  "emitted (no_decision s) = emitted s"
  "tool_calls_check (no_decision s) = []"
  "content_preview (no_decision s) = []"
  by (simp_all add: no_decision_def)

lemma detect_round_unfold:
  "detect_round a s =
     (case run_error (first_run a s) of
        None \<Rightarrow> after_first a s
      | Some e \<Rightarrow> on_llm_failure a (tools_messages a s) e (after_first a s))"
  by (simp add: detect_round_def invoke_llm_def first_run_def after_first_def round_start_def Let_def
      split: option.splits)

lemma on_llm_failure_unfold:
  "on_llm_failure a (tools_messages a s) e (after_first a s) =
     (if is_multimodal_error a e then
        (case run_error (retry_run a s) of
           None \<Rightarrow> after_retry a s
         | Some e2 \<Rightarrow> no_decision (after_retry a s))
      else no_decision (after_first a s))"
  by (simp add: on_llm_failure_def after_first_fields invoke_llm_def Let_def after_retry_def
      before_retry_def retry_run_def no_decision_def emit_def start_once_def
      split: option.splits)

lemma detect_round_cases [case_names Completed Failed RetryOk RetryFailed]:
  obtains
    (Completed) "run_error (first_run a s) = None" "detect_round a s = after_first a s"
  | (Failed) e where "run_error (first_run a s) = Some e" "\<not> is_multimodal_error a e"
      "detect_round a s = no_decision (after_first a s)"
  | (RetryOk) e where "run_error (first_run a s) = Some e" "is_multimodal_error a e"
      "run_error (retry_run a s) = None" "detect_round a s = after_retry a s"
  | (RetryFailed) e e2 where "run_error (first_run a s) = Some e" "is_multimodal_error a e"
      "run_error (retry_run a s) = Some e2" "detect_round a s = no_decision (after_retry a s)"
proof (cases "run_error (first_run a s)")
  case None
  then show ?thesis using Completed by (simp add: detect_round_unfold)
next
  case (Some e)
  show ?thesis
  proof (cases "is_multimodal_error a e")
    case False
    then show ?thesis using Some Failed by (simp add: detect_round_unfold on_llm_failure_unfold)
  next
    case True
    show ?thesis
    proof (cases "run_error (retry_run a s)")
      case None
      then show ?thesis using Some True RetryOk
        by (simp add: detect_round_unfold on_llm_failure_unfold)
    next
      case (Some e2)
      then show ?thesis using \<open>run_error (first_run a s) = Some e\<close> True RetryFailed
        by (simp add: detect_round_unfold on_llm_failure_unfold)
    qed
  qed
qed

lemmas detect_fields = after_first_fields after_retry_fields no_decision_fields before_retry_fields

lemma detect_round_frame:
  "shared_history (detect_round a s) = shared_history s"
  "tool_invocations (detect_round a s) = tool_invocations s"
  "consecutive_tool_failures (detect_round a s) = consecutive_tool_failures s"
  "tool_error_history (detect_round a s) = tool_error_history s"
  "current_round_has_error (detect_round a s) = current_round_has_error s"
  by (cases rule: detect_round_cases [of a s]; simp add: detect_fields)+


lemma detect_round_counts:
  "count_events is_response_end (emitted (detect_round a s)) = count_events is_response_end (emitted s)"
  "count_events is_error (emitted (detect_round a s)) = count_events is_error (emitted s)"
  "count_events is_tool_start (emitted (detect_round a s)) = count_events is_tool_start (emitted s)"
  by (cases rule: detect_round_cases [of a s]; simp add: detect_fields)+

lemma detect_round_starts:
  "count_events is_response_start (emitted (detect_round a s))
     + (if combined_response_started s then 1 else 0)
   = count_events is_response_start (emitted s)
     + (if combined_response_started (detect_round a s) then 1 else 0)"
  by (cases rule: detect_round_cases [of a s]; simp add: detect_fields)

lemma detect_round_combined_mono:
  "combined_response_started s \<Longrightarrow> combined_response_started (detect_round a s)"
  by (cases rule: detect_round_cases [of a s]; simp add: detect_fields)

lemma detect_round_llm_bound:
  "length (llm_invocations (detect_round a s)) \<le> length (llm_invocations s) + 2"
  by (cases rule: detect_round_cases [of a s]; simp add: detect_fields)

subsection \<open>Tool calls\<close>

lemma exec_tool_call_frame:
  "llm_invocations (exec_tool_call a n i tc s) = llm_invocations s"
  "non_multimodal_models (exec_tool_call a n i tc s) = non_multimodal_models s"
  "combined_response_started (exec_tool_call a n i tc s) = combined_response_started s"
  "buffered_chunks (exec_tool_call a n i tc s) = buffered_chunks s"
  "last_usage (exec_tool_call a n i tc s) = last_usage s"
  by (simp_all add: exec_tool_call_def emit_def Let_def split: option.splits sum.splits)

lemma exec_tool_call_counts:
  "count_events is_response_start (emitted (exec_tool_call a n i tc s))
     = count_events is_response_start (emitted s)"
  "count_events is_response_end (emitted (exec_tool_call a n i tc s))
     = count_events is_response_end (emitted s)"
  "count_events is_error (emitted (exec_tool_call a n i tc s)) = count_events is_error (emitted s)"
  "count_events is_tool_start (emitted (exec_tool_call a n i tc s))
     = Suc (count_events is_tool_start (emitted s))"
  by (simp_all add: exec_tool_call_def emit_def Let_def split: option.splits sum.splits)

lemma exec_tool_call_history:
  "\<exists>res. shared_history (exec_tool_call a n i tc s)
           = shared_history s @ [tool_message (tool_id_of i tc) (tool_name_of tc) res]"
  by (auto simp add: exec_tool_call_def emit_def Let_def split: option.splits sum.splits)

lemma run_tool_calls_frame:
  "llm_invocations (run_tool_calls a n i tcs s) = llm_invocations s"
  "non_multimodal_models (run_tool_calls a n i tcs s) = non_multimodal_models s"
  "combined_response_started (run_tool_calls a n i tcs s) = combined_response_started s"
  "buffered_chunks (run_tool_calls a n i tcs s) = buffered_chunks s"
  "last_usage (run_tool_calls a n i tcs s) = last_usage s"
  by (induction tcs arbitrary: i s; simp add: exec_tool_call_frame)+

lemma run_tool_calls_counts:
  "count_events is_response_start (emitted (run_tool_calls a n i tcs s))
     = count_events is_response_start (emitted s)"
  "count_events is_response_end (emitted (run_tool_calls a n i tcs s))
     = count_events is_response_end (emitted s)"
  "count_events is_error (emitted (run_tool_calls a n i tcs s)) = count_events is_error (emitted s)"
  "count_events is_tool_start (emitted (run_tool_calls a n i tcs s))
     = count_events is_tool_start (emitted s) + length tcs"
  by (induction tcs arbitrary: i s; simp add: exec_tool_call_counts)+

text \<open>The messages a batch appends: one tool message per call, in request order.\<close>

lemma run_tool_calls_history:
  "\<exists>new. shared_history (run_tool_calls a n i tcs s) = shared_history s @ new
         \<and> map msg_role new = replicate (length tcs) Tool
         \<and> map msg_tool_call_id new = map (\<lambda>(j, c). Some (tool_id_of j c)) (enumerate i tcs)"
proof (induction tcs arbitrary: i s)
  case Nil
  then show ?case by simp
next
  case (Cons tc tcs)
  obtain res where h: "shared_history (exec_tool_call a n i tc s)
      = shared_history s @ [tool_message (tool_id_of i tc) (tool_name_of tc) res]"
    using exec_tool_call_history by blast
  obtain new where n: "shared_history (run_tool_calls a n (Suc i) tcs (exec_tool_call a n i tc s))
        = shared_history (exec_tool_call a n i tc s) @ new"
      "map msg_role new = replicate (length tcs) Tool"
      "map msg_tool_call_id new = map (\<lambda>(j, c). Some (tool_id_of j c)) (enumerate (Suc i) tcs)"
    using Cons.IH by blast
  let ?new = "tool_message (tool_id_of i tc) (tool_name_of tc) res # new"
  have "shared_history (run_tool_calls a n i (tc # tcs) s) = shared_history s @ ?new"
    using h n by simp
  moreover have "map msg_role ?new = replicate (length (tc # tcs)) Tool"
    using n by (simp add: tool_message_def)
  moreover have "map msg_tool_call_id ?new
      = map (\<lambda>(j, c). Some (tool_id_of j c)) (enumerate i (tc # tcs))"
    using n by (simp add: tool_message_def)
  ultimately show ?case by blast
qed

lemma answers_Nil [simp]: "answers tid [] = 0"
  by (simp add: answers_def)

lemma answers_append [simp]: "answers tid (xs @ ys) = answers tid xs + answers tid ys"
  by (simp add: answers_def)

lemma answers_Cons:
  "answers tid (m # ms)
     = (if msg_role m = Tool \<and> msg_tool_call_id m = Some tid then Suc (answers tid ms)
        else answers tid ms)"
  by (simp add: answers_def)

lemma answers_tool_messages:
  "map msg_role new = replicate (length ids) Tool \<Longrightarrow> map msg_tool_call_id new = map Some ids
     \<Longrightarrow> answers tid new = length (filter (\<lambda>x. x = tid) ids)"
proof (induction new arbitrary: ids)
  case Nil
  then show ?case by simp
next
  case (Cons m new)
  then obtain x xs where ids: "ids = x # xs" by (cases ids) auto
  with Cons.prems have "msg_role m = Tool" "msg_tool_call_id m = Some x"
    "map msg_role new = replicate (length xs) Tool" "map msg_tool_call_id new = map Some xs"
    by auto
  with Cons.IH [of xs] ids show ?case by (auto simp: answers_Cons)
qed

lemma distinct_occurs_once:
  "distinct ids \<Longrightarrow> length (filter (\<lambda>x. x = tid) ids) = (if tid \<in> set ids then 1 else 0)"
  by (induction ids) auto

lemma exec_tool_call_emitted: "\<exists>es. emitted (exec_tool_call a n i tc s) = emitted s @ es"
  by (auto simp add: exec_tool_call_def emit_def Let_def split: option.splits sum.splits)

lemma run_tool_calls_emitted: "\<exists>es. emitted (run_tool_calls a n i tcs s) = emitted s @ es"
proof (induction tcs arbitrary: i s)
  case Nil
  then show ?case by simp
next
  case (Cons tc tcs)
  obtain es1 where "emitted (exec_tool_call a n i tc s) = emitted s @ es1"
    using exec_tool_call_emitted by blast
  moreover obtain es2 where "emitted (run_tool_calls a n (Suc i) tcs (exec_tool_call a n i tc s))
      = emitted (exec_tool_call a n i tc s) @ es2"
    using Cons.IH by blast
  ultimately show ?case by simp
qed

subsection \<open>A tool round\<close>

lemma batch_start_fields:
  "tool_calls_check (batch_start s) = tool_calls_check s"
  "llm_invocations (batch_start s) = llm_invocations s"
  "tool_invocations (batch_start s) = tool_invocations s"
  "non_multimodal_models (batch_start s) = non_multimodal_models s"
  "combined_response_started (batch_start s) = combined_response_started s"
  "last_usage (batch_start s) = last_usage s"
  "consecutive_tool_failures (batch_start s) = consecutive_tool_failures s"
  "tool_error_history (batch_start s) = tool_error_history s"
  "current_round_has_error (batch_start s) = False"
  "buffered_chunks (batch_start s) = (if response_started s then [] else buffered_chunks s)"
  "shared_history (batch_start s)
     = shared_history s @ [assistant_tool_calls_message (tool_calls_check s)]"
  "emitted (batch_start s)
     = emitted s
       @ (if response_started s \<and> buffered_chunks s \<noteq> [] then [AiResponseChunk separator] else [])
       @ [ToolPlan (length (tool_calls_check s))]"
  by (simp_all add: batch_start_def emit_def Let_def)

lemma tool_batch_frame:
  "llm_invocations (tool_batch a s) = llm_invocations s"
  "non_multimodal_models (tool_batch a s) = non_multimodal_models s"
  "combined_response_started (tool_batch a s) = combined_response_started s"
  "last_usage (tool_batch a s) = last_usage s"
  "buffered_chunks (tool_batch a s) = (if response_started s then [] else buffered_chunks s)"
  by (simp_all add: tool_batch_def run_tool_calls_frame batch_start_fields)

lemma tool_batch_counts:
  "count_events is_response_start (emitted (tool_batch a s))
     = count_events is_response_start (emitted s)"
  "count_events is_response_end (emitted (tool_batch a s))
     = count_events is_response_end (emitted s)"
  "count_events is_error (emitted (tool_batch a s)) = count_events is_error (emitted s)"
  "count_events is_tool_start (emitted (tool_batch a s))
     = count_events is_tool_start (emitted s) + length (tool_calls_check s)"
  by (simp_all add: tool_batch_def run_tool_calls_counts batch_start_fields)

lemma tool_batch_history:
  "\<exists>new. shared_history (tool_batch a s)
           = shared_history s @ assistant_tool_calls_message (tool_calls_check s) # new
         \<and> map msg_role new = replicate (length (tool_calls_check s)) Tool
         \<and> map msg_tool_call_id new = map Some (batch_ids (tool_calls_check s))"
proof -
  obtain new where
    "shared_history (tool_batch a s) = shared_history (batch_start s) @ new"
    "map msg_role new = replicate (length (tool_calls_check s)) Tool"
    "map msg_tool_call_id new
       = map (\<lambda>(j, c). Some (tool_id_of j c)) (enumerate 1 (tool_calls_check s))"
    unfolding tool_batch_def using run_tool_calls_history by blast
  then show ?thesis
    by (auto simp: batch_start_fields batch_ids_def case_prod_unfold)
qed

lemma tool_batch_emitted:
  "\<exists>es. emitted (tool_batch a s)
          = emitted s
            @ (if response_started s \<and> buffered_chunks s \<noteq> [] then [AiResponseChunk separator] else [])
            @ ToolPlan (length (tool_calls_check s)) # es"
proof -
  obtain es where "emitted (tool_batch a s) = emitted (batch_start s) @ es"
    unfolding tool_batch_def using run_tool_calls_emitted by blast
  then show ?thesis by (simp add: batch_start_fields)
qed

lemma update_failures_frame:
  "llm_invocations (update_failures s) = llm_invocations s"
  "tool_invocations (update_failures s) = tool_invocations s"
  "non_multimodal_models (update_failures s) = non_multimodal_models s"
  "combined_response_started (update_failures s) = combined_response_started s"
  "last_usage (update_failures s) = last_usage s"
  "buffered_chunks (update_failures s) = buffered_chunks s"
  by (simp_all add: update_failures_def emit_def Let_def)

lemma update_failures_counts:
  "count_events is_response_start (emitted (update_failures s))
     = count_events is_response_start (emitted s)"
  "count_events is_response_end (emitted (update_failures s))
     = count_events is_response_end (emitted s)"
  "count_events is_error (emitted (update_failures s)) = count_events is_error (emitted s)"
  "count_events is_tool_start (emitted (update_failures s))
     = count_events is_tool_start (emitted s)"
  by (simp_all add: update_failures_def emit_def Let_def)

text \<open>Whether the batch makes the counter reach the threshold.\<close>

lemma update_failures_triggered:
  "current_round_has_error s \<Longrightarrow> max_consecutive_failures \<le> Suc (consecutive_tool_failures s) \<Longrightarrow>
     update_failures s =
       s\<lparr>shared_history := shared_history s @ [user_message (fallback_prompt (tool_error_history s))],
         emitted := emitted s @ [FallbackTriggered (Suc (consecutive_tool_failures s))],
         consecutive_tool_failures := 0, tool_error_history := []\<rparr>"
  by (simp add: update_failures_def emit_def Let_def)

lemma update_failures_counted:
  "current_round_has_error s \<Longrightarrow> Suc (consecutive_tool_failures s) < max_consecutive_failures \<Longrightarrow>
     update_failures s = s\<lparr>consecutive_tool_failures := Suc (consecutive_tool_failures s)\<rparr>"
  by (simp add: update_failures_def emit_def Let_def)

lemma update_failures_clean:
  "\<not> current_round_has_error s \<Longrightarrow> update_failures s = s"
  by (simp add: update_failures_def)

lemma update_failures_history:
  "\<exists>fb. shared_history (update_failures s) = shared_history s @ fb \<and> answers tid fb = 0"
  by (auto simp: update_failures_def emit_def Let_def answers_Cons user_message_def)

lemma tool_round_frame:
  "llm_invocations (tool_round a s) = llm_invocations s"
  "non_multimodal_models (tool_round a s) = non_multimodal_models s"
  "combined_response_started (tool_round a s) = combined_response_started s"
  by (simp_all add: tool_round_def update_failures_frame tool_batch_frame)

lemma tool_round_counts:
  "count_events is_response_start (emitted (tool_round a s))
     = count_events is_response_start (emitted s)"
  "count_events is_response_end (emitted (tool_round a s))
     = count_events is_response_end (emitted s)"
  "count_events is_error (emitted (tool_round a s)) = count_events is_error (emitted s)"
  "count_events is_tool_start (emitted (tool_round a s))
     = count_events is_tool_start (emitted s) + length (tool_calls_check s)"
  by (simp_all add: tool_round_def update_failures_counts tool_batch_counts)

subsection \<open>The end of a turn\<close>

lemma answer_round_counts:
  "count_events is_response_end (emitted (answer_round s))
     = Suc (count_events is_response_end (emitted s))"
  "count_events is_response_start (emitted (answer_round s))
     = (if combined_response_started s then count_events is_response_start (emitted s)
        else Suc (count_events is_response_start (emitted s)))"
  "count_events is_error (emitted (answer_round s)) = count_events is_error (emitted s)"
  by (simp_all add: answer_round_def emit_def Let_def split: option.splits)

lemma answer_round_frame:
  "llm_invocations (answer_round s) = llm_invocations s"
  "combined_response_started (answer_round s) = True"
  by (simp_all add: answer_round_def emit_def Let_def split: option.splits)

lemma budget_exhausted_counts:
  "count_events is_response_end (emitted (budget_exhausted s))
     = Suc (count_events is_response_end (emitted s))"
  "count_events is_response_start (emitted (budget_exhausted s))
     = Suc (count_events is_response_start (emitted s))"
  "count_events is_error (emitted (budget_exhausted s)) = count_events is_error (emitted s)"
  by (simp_all add: budget_exhausted_def emit_def)

lemma budget_exhausted_frame:
  "llm_invocations (budget_exhausted s) = llm_invocations s"
  "combined_response_started (budget_exhausted s) = combined_response_started s"
  "emitted (budget_exhausted s)
     = emitted s @ [AiResponseStart, AiResponseChunk max_rounds_text, AiResponseEnd max_rounds_text]"
  by (simp_all add: budget_exhausted_def emit_def)

subsection \<open>The round loop\<close>

lemma round_loop_tool:
  "ri < mx \<Longrightarrow> decide (detect_round a s) = TOOL_DECIDED \<Longrightarrow>
     round_loop a mx ri s = round_loop a mx (Suc ri) (tool_round a (detect_round a s))"
  by (subst round_loop.simps) simp

lemma round_loop_answer:
  "ri < mx \<Longrightarrow> decide (detect_round a s) = ANSWER_DECIDED \<Longrightarrow>
     round_loop a mx ri s = (Answered, Suc ri, answer_round (detect_round a s))"
  by (subst round_loop.simps) simp

lemma round_loop_exhausted:
  "\<not> ri < mx \<Longrightarrow> round_loop a mx ri s = (BudgetExhausted, ri, budget_exhausted s)"
  by (subst round_loop.simps) simp

declare round_loop.simps [simp del]

lemma round_loop_events:
  "round_loop a mx ri s = (oc, r, s') \<Longrightarrow>
   count_events is_response_start (emitted s) = (if combined_response_started s then 1 else 0) \<Longrightarrow>
   count_events is_response_end (emitted s) = 0 \<Longrightarrow>
   count_events is_response_end (emitted s') = 1
   \<and> count_events is_response_start (emitted s')
       = (if oc = BudgetExhausted \<and> combined_response_started s' then 2 else 1)"
proof (induction a mx ri s arbitrary: oc r s' rule: round_loop.induct)
  case (1 a mx ri s)
  let ?d = "detect_round a s"
  have d_starts: "count_events is_response_start (emitted ?d)
      = (if combined_response_started ?d then 1 else 0)"
    using detect_round_starts [of a s] detect_round_combined_mono [of s a] "1.prems"(2)
    by (simp split: if_splits)
  have d_ends: "count_events is_response_end (emitted ?d) = 0"
    using "1.prems"(3) by (simp add: detect_round_counts)
  show ?case
  proof (cases "ri < mx")
    case False
    then show ?thesis
      using "1.prems" by (auto simp: round_loop_exhausted budget_exhausted_counts budget_exhausted_frame)
  next
    case True
    show ?thesis
    proof (cases "decide ?d")
      case ANSWER_DECIDED
      then show ?thesis
        using True "1.prems"(1) d_starts d_ends
        by (auto simp: round_loop_answer answer_round_counts)
    next
      case TOOL_DECIDED
      then have "round_loop a mx (Suc ri) (tool_round a ?d) = (oc, r, s')"
        using True "1.prems"(1) by (simp add: round_loop_tool)
      moreover have "count_events is_response_start (emitted (tool_round a ?d))
          = (if combined_response_started (tool_round a ?d) then 1 else 0)"
        using d_starts by (simp add: tool_round_counts tool_round_frame)
      moreover have "count_events is_response_end (emitted (tool_round a ?d)) = 0"
        using d_ends by (simp add: tool_round_counts)
      ultimately show ?thesis
        using "1.IH" [OF True TOOL_DECIDED] by blast
    qed
  qed
qed

lemma round_loop_rounds:
  "round_loop a mx ri s = (oc, r, s') \<Longrightarrow>
   ri \<le> r \<and> r \<le> max ri mx
   \<and> (oc = BudgetExhausted \<longrightarrow> mx \<le> r
        \<and> (\<exists>pre. emitted s' = pre @ [AiResponseStart, AiResponseChunk max_rounds_text,
                                       AiResponseEnd max_rounds_text]))
   \<and> count_events is_error (emitted s') = count_events is_error (emitted s)
   \<and> length (llm_invocations s') \<le> length (llm_invocations s) + 2 * (r - ri)"
proof (induction a mx ri s arbitrary: oc r s' rule: round_loop.induct)
  case (1 a mx ri s)
  let ?d = "detect_round a s"
  show ?case
  proof (cases "ri < mx")
    case False
    then show ?thesis
      using "1.prems" by (auto simp: round_loop_exhausted budget_exhausted_counts budget_exhausted_frame)
  next
    case True
    show ?thesis
    proof (cases "decide ?d")
      case ANSWER_DECIDED
      then show ?thesis
        using True "1.prems"(1) detect_round_llm_bound [of a s]
        by (auto simp: round_loop_answer answer_round_counts answer_round_frame detect_round_counts)
    next
      case TOOL_DECIDED
      then have "round_loop a mx (Suc ri) (tool_round a ?d) = (oc, r, s')"
        using True "1.prems"(1) by (simp add: round_loop_tool)
      from "1.IH" [OF True TOOL_DECIDED this] show ?thesis
        using True detect_round_llm_bound [of a s]
        by (auto simp: tool_round_counts tool_round_frame detect_round_counts)
    qed
  qed
qed

subsection \<open>A binding that always asks for a tool\<close>

text \<open>On the stub binding that streams one token and requests \<open>get_price\<close> at every
  invocation, every round is a tool round, so the loop ends by using up its budget,
  with the response already started.\<close>

lemma always_tool_run:
  "first_run (stub_agent ts llm_always_tool) s = streams_then_calls [''x''] [price_call ''c1'']"
  by (simp add: first_run_def stub_agent_def llm_always_tool_def)

lemma always_tool_detect:
  "decide (detect_round (stub_agent ts llm_always_tool) s) = TOOL_DECIDED"
  "combined_response_started (detect_round (stub_agent ts llm_always_tool) s)"
  by (cases rule: detect_round_cases [of "stub_agent ts llm_always_tool" s];
      simp add: always_tool_run streams_then_calls_def decide_def after_first_decision
        after_first_fields)+

lemma always_tool_exhausts:
  "a = stub_agent ts llm_always_tool \<Longrightarrow>
     fst (round_loop a mx ri s) = BudgetExhausted
     \<and> (combined_response_started s \<or> ri < mx
          \<longrightarrow> combined_response_started (snd (snd (round_loop a mx ri s))))"
proof (induction a mx ri s rule: round_loop.induct)
  case (1 a mx ri s)
  show ?case
  proof (cases "ri < mx")
    case False
    then show ?thesis by (simp add: round_loop_exhausted budget_exhausted_frame)
  next
    case True
    have d: "decide (detect_round a s) = TOOL_DECIDED"
      "combined_response_started (detect_round a s)"
      using "1.prems" always_tool_detect by simp_all
    from "1.IH" [OF True d(1) "1.prems"] d True show ?thesis
      by (simp add: round_loop_tool tool_round_frame)
  qed
qed

lemma initial_state_counts:
  "count_events is_response_start (emitted (initial_state a marked)) = 0"
  "count_events is_response_end (emitted (initial_state a marked)) = 0"
  "count_events is_error (emitted (initial_state a marked)) = 0"
  "combined_response_started (initial_state a marked) = False"
  "llm_invocations (initial_state a marked) = []"
  by (simp_all add: initial_state_def)

section \<open>The round budget\<close>

text \<open>
  Claim C7. A turn runs at most 25 rounds, with at most two model invocations in each.
  It yields no \<open>error\<close> event; when the budget is used up without an answer, all 25
  rounds have run and the turn ends with a start, the fixed text as a chunk, and an end
  that carries the same text.
\<close>

theorem round_budget_respected:
  "chat_stream a marked = (oc, r, s') \<Longrightarrow>
     r \<le> 25
     \<and> length (llm_invocations s') \<le> 2 * r
     \<and> count_events is_error (emitted s') = 0
     \<and> (oc = BudgetExhausted \<longrightarrow>
          r = 25
          \<and> (\<exists>pre. emitted s' = pre @ [AiResponseStart, AiResponseChunk max_rounds_text,
                                         AiResponseEnd max_rounds_text]))"
  using round_loop_rounds [of a max_rounds 0 "initial_state a marked" oc r s']
  by (auto simp: chat_stream_def max_rounds_def initial_state_counts)

text \<open>C7 on the binding that always asks for a tool: the budget is used up after 25
  rounds and the fixed text closes the turn.\<close>

theorem round_budget_respected_witness:
  "fst (chat_stream (stub_agent [price_tool] llm_always_tool) {}) = BudgetExhausted
   \<and> fst (snd (chat_stream (stub_agent [price_tool] llm_always_tool) {})) = 25
   \<and> (\<exists>pre. emitted (snd (snd (chat_stream (stub_agent [price_tool] llm_always_tool) {})))
              = pre @ [AiResponseStart, AiResponseChunk max_rounds_text,
                       AiResponseEnd max_rounds_text])"
proof -
  let ?run = "chat_stream (stub_agent [price_tool] llm_always_tool) {}"
  have exhausted: "fst ?run = BudgetExhausted"
    using always_tool_exhausts [of _ "[price_tool]"] by (simp add: chat_stream_def)
  have "?run = (fst ?run, fst (snd ?run), snd (snd ?run))"
    by simp
  from round_budget_respected [OF this] exhausted show ?thesis
    by simp
qed

section \<open>Response start and end of a turn\<close>

text \<open>
  A turn of the single agent yields exactly one \<open>response_end\<close>. It yields exactly one
  \<open>response_start\<close>, except when the budget is used up after the response had
  started: the exit after the loop yields a start of its own without looking at
  \<open>combined_response_started\<close>.
\<close>

lemma chat_stream_event_counts:
  "chat_stream a marked = (oc, r, s') \<Longrightarrow>
     count_events is_response_end (emitted s') = 1
     \<and> count_events is_response_start (emitted s')
         = (if oc = BudgetExhausted \<and> combined_response_started s' then 2 else 1)"
  using round_loop_events [of a max_rounds 0 "initial_state a marked" oc r s']
  by (simp add: chat_stream_def initial_state_counts)

text \<open>
  Claim C2 at the binding that streams a token before each of its 25 tool requests: the
  turn yields two \<open>response_start\<close> events (one with the first token of round 1, one
  after the loop) and one \<open>response_end\<close>.
\<close>

theorem exhausted_turn_starts_twice:
  "count_events is_response_start
     (emitted (snd (snd (chat_stream (stub_agent [price_tool] llm_always_tool) {})))) = 2
   \<and> count_events is_response_end
     (emitted (snd (snd (chat_stream (stub_agent [price_tool] llm_always_tool) {})))) = 1"
proof -
  let ?run = "chat_stream (stub_agent [price_tool] llm_always_tool) {}"
  have exhausted: "fst ?run = BudgetExhausted" "combined_response_started (snd (snd ?run))"
    using always_tool_exhausts [of _ "[price_tool]" max_rounds 0]
    by (simp_all add: chat_stream_def max_rounds_def)
  have "?run = (fst ?run, fst (snd ?run), snd (snd ?run))"
    by simp
  from chat_stream_event_counts [OF this] exhausted show ?thesis
    by simp
qed

subsection \<open>The outcomes of detection, one by one\<close>

lemma detect_round_completed:
  "run_error (first_run a s) = None \<Longrightarrow> detect_round a s = after_first a s"
  by (simp add: detect_round_unfold)

lemma detect_round_failed:
  "run_error (first_run a s) = Some e \<Longrightarrow> \<not> is_multimodal_error a e \<Longrightarrow>
     detect_round a s = no_decision (after_first a s)"
  by (simp add: detect_round_unfold on_llm_failure_unfold)

lemma detect_round_retried:
  "run_error (first_run a s) = Some e \<Longrightarrow> is_multimodal_error a e \<Longrightarrow>
   run_error (retry_run a s) = None \<Longrightarrow> detect_round a s = after_retry a s"
  by (simp add: detect_round_unfold on_llm_failure_unfold)

lemma detect_round_retry_failed:
  "run_error (first_run a s) = Some e \<Longrightarrow> is_multimodal_error a e \<Longrightarrow>
   run_error (retry_run a s) = Some e2 \<Longrightarrow> detect_round a s = no_decision (after_retry a s)"
  by (simp add: detect_round_unfold on_llm_failure_unfold)


lemma update_failures_emitted: "\<exists>fb. emitted (update_failures s) = emitted s @ fb"
  by (simp add: update_failures_def emit_def Let_def)

lemma tool_round_emitted:
  "\<exists>es. emitted (tool_round a s)
          = emitted s
            @ (if response_started s \<and> buffered_chunks s \<noteq> [] then [AiResponseChunk separator] else [])
            @ ToolPlan (length (tool_calls_check s)) # es"
proof -
  obtain es where "emitted (tool_batch a s)
      = emitted s @ (if response_started s \<and> buffered_chunks s \<noteq> []
                      then [AiResponseChunk separator] else [])
        @ ToolPlan (length (tool_calls_check s)) # es"
    using tool_batch_emitted by blast
  moreover obtain fb where "emitted (update_failures (tool_batch a s)) = emitted (tool_batch a s) @ fb"
    using update_failures_emitted by blast
  ultimately show ?thesis by (simp add: tool_round_def)
qed

lemma tool_round_buffered:
  "buffered_chunks (tool_round a s) = (if response_started s then [] else buffered_chunks s)"
  by (simp add: tool_round_def update_failures_frame tool_batch_frame)

text \<open>What a round decides once the values read from the stream are known.\<close>

lemma decision_from_fields:
  assumes calls: "tool_calls_check d = calls" and content: "content_preview d = text"
    and buf: "buffered_chunks d = pieces" and started: "response_started d = (pieces \<noteq> [])"
  shows "(calls \<noteq> [] \<longrightarrow>
            decide d = TOOL_DECIDED
            \<and> buffered_chunks (tool_round a d) = []
            \<and> (\<exists>es. emitted (tool_round a d)
                  = emitted d @ (if pieces \<noteq> [] then [AiResponseChunk separator] else [])
                    @ ToolPlan (length calls) # es))
         \<and> (calls = [] \<longrightarrow>
            decide d = ANSWER_DECIDED
            \<and> final_text d = (if pieces \<noteq> [] then concat pieces else text))"
proof -
  have "buffered_chunks (tool_round a d) = []"
    using buf started by (simp add: tool_round_buffered)
  moreover have "\<exists>es. emitted (tool_round a d)
      = emitted d @ (if pieces \<noteq> [] then [AiResponseChunk separator] else [])
        @ ToolPlan (length calls) # es"
    using tool_round_emitted [of a d] calls buf started by simp
  moreover have "final_text d = (if pieces \<noteq> [] then concat pieces else text)"
    using buf content by (simp add: final_text_def)
  ultimately show ?thesis
    using calls by (simp add: decide_def)
qed






section \<open>The decision rule of a round\<close>





section \<open>The failure counter and the fallback\<close>

lemma exec_tool_call_outcome:
  "current_round_has_error (exec_tool_call a n i tc s)
     = (current_round_has_error s \<or> call_error a (length (tool_invocations s)) tc \<noteq> None)"
  "consecutive_tool_failures (exec_tool_call a n i tc s)
     = (if call_error a (length (tool_invocations s)) tc = None then 0
        else consecutive_tool_failures s)"
  "tool_error_history (exec_tool_call a n i tc s)
     = tool_error_history s @ failures [call_error a (length (tool_invocations s)) tc]"
  "length (tool_invocations (exec_tool_call a n i tc s))
     = (if find_tool (tools a) (tool_name_of tc) = None then length (tool_invocations s)
        else Suc (length (tool_invocations s)))"
  by (simp_all add: exec_tool_call_def call_error_def failures_def emit_def Let_def
      split: option.splits sum.splits)

lemma failures_simps [simp]:
  "failures [] = []"
  "failures (None # es) = failures es"
  "failures (Some x # es) = x # failures es"
  by (simp_all add: failures_def)

lemma run_tool_calls_has_error:
  "current_round_has_error (run_tool_calls a n i tcs s)
     = (current_round_has_error s
        \<or> failures (call_errors a (length (tool_invocations s)) tcs) \<noteq> [])"
proof (induction tcs arbitrary: i s)
  case Nil
  then show ?case by simp
next
  case (Cons tc tcs)
  show ?case
    by (cases "call_error a (length (tool_invocations s)) tc")
      (simp_all add: Cons.IH exec_tool_call_outcome)
qed

lemma run_tool_calls_counter:
  "consecutive_tool_failures (run_tool_calls a n i tcs s)
     = (if None \<in> set (call_errors a (length (tool_invocations s)) tcs) then 0
        else consecutive_tool_failures s)"
proof (induction tcs arbitrary: i s)
  case Nil
  then show ?case by simp
next
  case (Cons tc tcs)
  show ?case
    by (cases "call_error a (length (tool_invocations s)) tc")
      (simp_all add: Cons.IH exec_tool_call_outcome)
qed

lemma run_tool_calls_error_history:
  "tool_error_history (run_tool_calls a n i tcs s)
     = tool_error_history s @ failures (call_errors a (length (tool_invocations s)) tcs)"
proof (induction tcs arbitrary: i s)
  case Nil
  then show ?case by simp
next
  case (Cons tc tcs)
  show ?case
    by (cases "call_error a (length (tool_invocations s)) tc")
      (simp_all add: Cons.IH exec_tool_call_outcome)
qed

lemma length_call_errors [simp]: "length (call_errors a k tcs) = length tcs"
  by (induction tcs arbitrary: k) simp_all

lemma tool_batch_outcome:
  "current_round_has_error (tool_batch a s) = (failures (batch_errors a s) \<noteq> [])"
  "consecutive_tool_failures (tool_batch a s)
     = (if None \<in> set (batch_errors a s) then 0 else consecutive_tool_failures s)"
  "tool_error_history (tool_batch a s) = tool_error_history s @ failures (batch_errors a s)"
  by (simp_all add: tool_batch_def batch_errors_def batch_start_fields run_tool_calls_has_error
      run_tool_calls_counter run_tool_calls_error_history)

lemma run_tool_calls_invoked:
  "length (tool_invocations (run_tool_calls a n i tcs s))
     = length (tool_invocations s)
       + length (filter (\<lambda>tc. find_tool (tools a) (tool_name_of tc) \<noteq> None) tcs)"
  by (induction tcs arbitrary: i s) (simp_all add: exec_tool_call_outcome)

lemma tool_batch_invoked:
  "length (tool_invocations (tool_batch a s))
     = length (tool_invocations s)
       + length (filter (\<lambda>tc. find_tool (tools a) (tool_name_of tc) \<noteq> None) (tool_calls_check s))"
  by (simp add: tool_batch_def run_tool_calls_invoked batch_start_fields)

text \<open>
  Claim C4, amended. Every call of the batch is executed and answered before the counter
  is looked at. A call fails when its tool is not registered or raises; each failure
  adds an entry to the failure history, and a call that succeeds resets the counter to
  0 at once. After the batch: a round without a failure leaves everything as the batch
  left it; a round with a failure raises the counter by one, once, however many calls
  failed; when that makes it reach 3, exactly one synthetic user message with the
  fallback instruction is appended after the batch's tool messages, a
  \<open>fallback_triggered\<close> event is yielded, and the counter and the failure history are
  reset. No \<open>error\<close> event is yielded and the loop goes on with the next round.
\<close>

theorem fallback_after_batch:
  "length (batch_errors a s) = length (tool_calls_check s)
   \<and> count_events is_tool_start (emitted (tool_batch a s))
       = count_events is_tool_start (emitted s) + length (tool_calls_check s)
   \<and> (\<exists>new. shared_history (tool_batch a s)
               = shared_history s @ assistant_tool_calls_message (tool_calls_check s) # new
            \<and> map msg_role new = replicate (length (tool_calls_check s)) Tool)
   \<and> tool_error_history (tool_batch a s) = tool_error_history s @ failures (batch_errors a s)
   \<and> consecutive_tool_failures (tool_batch a s)
       = (if None \<in> set (batch_errors a s) then 0 else consecutive_tool_failures s)
   \<and> (failures (batch_errors a s) = [] \<longrightarrow> tool_round a s = tool_batch a s)
   \<and> (failures (batch_errors a s) \<noteq> []
        \<and> Suc (consecutive_tool_failures (tool_batch a s)) < 3 \<longrightarrow>
        tool_round a s
          = (tool_batch a s)
              \<lparr>consecutive_tool_failures := Suc (consecutive_tool_failures (tool_batch a s))\<rparr>)
   \<and> (failures (batch_errors a s) \<noteq> []
        \<and> 3 \<le> Suc (consecutive_tool_failures (tool_batch a s)) \<longrightarrow>
        tool_round a s
          = (tool_batch a s)
              \<lparr>shared_history :=
                 shared_history (tool_batch a s)
                 @ [user_message (fallback_prompt (tool_error_history (tool_batch a s)))],
               emitted :=
                 emitted (tool_batch a s)
                 @ [FallbackTriggered (Suc (consecutive_tool_failures (tool_batch a s)))],
               consecutive_tool_failures := 0, tool_error_history := []\<rparr>)
   \<and> count_events is_error (emitted (tool_round a s)) = count_events is_error (emitted s)
   \<and> (ri < mx \<and> decide (detect_round a s0) = TOOL_DECIDED \<longrightarrow>
        round_loop a mx ri s0 = round_loop a mx (Suc ri) (tool_round a (detect_round a s0)))
   \<and> (call_error a (length (tool_invocations s)) tc = None \<longrightarrow>
        consecutive_tool_failures (exec_tool_call a n i tc s) = 0)"
proof -
  let ?b = "tool_batch a s"
  have hist: "\<exists>new. shared_history ?b
               = shared_history s @ assistant_tool_calls_message (tool_calls_check s) # new
            \<and> map msg_role new = replicate (length (tool_calls_check s)) Tool"
    using tool_batch_history [of a s] by blast
  have clean: "failures (batch_errors a s) = [] \<longrightarrow> tool_round a s = ?b"
    by (simp add: tool_round_def update_failures_clean tool_batch_outcome)
  have counted: "failures (batch_errors a s) \<noteq> [] \<and> Suc (consecutive_tool_failures ?b) < 3 \<longrightarrow>
      tool_round a s = ?b\<lparr>consecutive_tool_failures := Suc (consecutive_tool_failures ?b)\<rparr>"
    by (simp add: tool_round_def update_failures_counted tool_batch_outcome(1)
        max_consecutive_failures_def)
  have triggered: "failures (batch_errors a s) \<noteq> [] \<and> 3 \<le> Suc (consecutive_tool_failures ?b) \<longrightarrow>
      tool_round a s
        = ?b\<lparr>shared_history :=
               shared_history ?b @ [user_message (fallback_prompt (tool_error_history ?b))],
             emitted := emitted ?b @ [FallbackTriggered (Suc (consecutive_tool_failures ?b))],
             consecutive_tool_failures := 0, tool_error_history := []\<rparr>"
    by (simp add: tool_round_def update_failures_triggered tool_batch_outcome(1)
        max_consecutive_failures_def)
  have success: "call_error a (length (tool_invocations s)) tc = None \<longrightarrow>
      consecutive_tool_failures (exec_tool_call a n i tc s) = 0"
    by (simp add: exec_tool_call_outcome)
  have loop: "ri < mx \<and> decide (detect_round a s0) = TOOL_DECIDED \<longrightarrow>
      round_loop a mx ri s0 = round_loop a mx (Suc ri) (tool_round a (detect_round a s0))"
    by (simp add: round_loop_tool)
  have rest: "length (batch_errors a s) = length (tool_calls_check s)"
    "count_events is_tool_start (emitted ?b)
       = count_events is_tool_start (emitted s) + length (tool_calls_check s)"
    "tool_error_history ?b = tool_error_history s @ failures (batch_errors a s)"
    "consecutive_tool_failures ?b
       = (if None \<in> set (batch_errors a s) then 0 else consecutive_tool_failures s)"
    "count_events is_error (emitted (tool_round a s)) = count_events is_error (emitted s)"
    by (simp_all add: batch_errors_def tool_batch_counts tool_batch_outcome tool_round_counts)
  from hist clean counted triggered success loop rest show ?thesis
    by blast
qed

subsection \<open>Three failing rounds\<close>

lemma breaking_run:
  "first_run breaking_agent s
     = finalises [] (if length (llm_invocations s) < 2 then [broken_call ''c1'']
                     else [broken_call ''c1'', broken_call ''c2''])"
  by (simp add: first_run_def breaking_agent_def stub_agent_def llm_breaking_def)

lemma breaking_detect:
  "tool_calls_check (detect_round breaking_agent s)
     = (if length (llm_invocations s) < 2 then [broken_call ''c1'']
        else [broken_call ''c1'', broken_call ''c2''])"
  "decide (detect_round breaking_agent s) = TOOL_DECIDED"
  "length (llm_invocations (detect_round breaking_agent s)) = Suc (length (llm_invocations s))"
  "tool_invocations (detect_round breaking_agent s) = tool_invocations s"
  "emitted (detect_round breaking_agent s) = emitted s"
  by (simp_all add: detect_round_completed breaking_run finalises_def after_first_decision
      after_first_fields decide_def)

lemma breaking_error:
  "call_error breaking_agent k (broken_call x) = Some (''broken'', ''boom'')"
  by (simp add: call_error_def breaking_agent_def stub_agent_def broken_tool_def
      broken_call_def find_tool_def str_or_def)

lemma breaking_registered:
  "find_tool (tools breaking_agent) (tool_name_of (broken_call x)) \<noteq> None"
  by (simp add: breaking_agent_def stub_agent_def broken_tool_def broken_call_def find_tool_def
      str_or_def)

lemma breaking_batch_errors:
  "batch_errors breaking_agent (detect_round breaking_agent s)
     = (if length (llm_invocations s) < 2 then [Some (''broken'', ''boom'')]
        else [Some (''broken'', ''boom''), Some (''broken'', ''boom'')])"
  by (simp add: batch_errors_def breaking_detect breaking_error)

text \<open>A round of the first two: one failure, counted once.\<close>

lemma breaking_round:
  assumes "length (llm_invocations s) < 2" "consecutive_tool_failures s < 2"
  shows "consecutive_tool_failures (tool_round breaking_agent (detect_round breaking_agent s))
           = Suc (consecutive_tool_failures s)"
    and "tool_error_history (tool_round breaking_agent (detect_round breaking_agent s))
           = tool_error_history s @ [(''broken'', ''boom'')]"
    and "length (llm_invocations (tool_round breaking_agent (detect_round breaking_agent s)))
           = Suc (length (llm_invocations s))"
proof -
  let ?d = "detect_round breaking_agent s"
  let ?b = "tool_batch breaking_agent ?d"
  have b: "consecutive_tool_failures ?b = consecutive_tool_failures s"
    "tool_error_history ?b = tool_error_history s @ [(''broken'', ''boom'')]"
    "failures (batch_errors breaking_agent ?d) \<noteq> []"
    using assms(1)
    by (simp_all add: tool_batch_outcome breaking_batch_errors detect_round_frame)
  then have "tool_round breaking_agent ?d
      = ?b\<lparr>consecutive_tool_failures := Suc (consecutive_tool_failures ?b)\<rparr>"
    using assms(2)
    by (simp add: tool_round_def update_failures_counted tool_batch_outcome(1)
        max_consecutive_failures_def)
  then show "consecutive_tool_failures (tool_round breaking_agent ?d)
           = Suc (consecutive_tool_failures s)"
    and "tool_error_history (tool_round breaking_agent ?d)
           = tool_error_history s @ [(''broken'', ''boom'')]"
    and "length (llm_invocations (tool_round breaking_agent ?d)) = Suc (length (llm_invocations s))"
    using b by (simp_all add: tool_batch_frame breaking_detect)
qed

lemma breaking_two_rounds:
  "consecutive_tool_failures (tool_rounds breaking_agent 2 (initial_state breaking_agent {})) = 2"
  "tool_error_history (tool_rounds breaking_agent 2 (initial_state breaking_agent {}))
     = [(''broken'', ''boom''), (''broken'', ''boom'')]"
  "length (llm_invocations (tool_rounds breaking_agent 2 (initial_state breaking_agent {}))) = 2"
proof -
  let ?s0 = "initial_state breaking_agent {}"
  let ?s1 = "tool_round breaking_agent (detect_round breaking_agent ?s0)"
  have s0: "length (llm_invocations ?s0) = 0" "consecutive_tool_failures ?s0 = 0"
    "tool_error_history ?s0 = []"
    by (simp_all add: initial_state_def)
  have s1: "consecutive_tool_failures ?s1 = 1" "tool_error_history ?s1 = [(''broken'', ''boom'')]"
    "length (llm_invocations ?s1) = 1"
    using breaking_round [of ?s0] s0 by simp_all
  have two: "tool_rounds breaking_agent 2 ?s0 = tool_round breaking_agent (detect_round breaking_agent ?s1)"
    by (simp add: numeral_2_eq_2)
  show "consecutive_tool_failures (tool_rounds breaking_agent 2 ?s0) = 2"
    "tool_error_history (tool_rounds breaking_agent 2 ?s0)
       = [(''broken'', ''boom''), (''broken'', ''boom'')]"
    "length (llm_invocations (tool_rounds breaking_agent 2 ?s0)) = 2"
    using breaking_round [of ?s1] s1 by (simp_all add: two)
qed

lemma breaking_third_batch:
  "tool_calls_check (detect_round breaking_agent
       (tool_rounds breaking_agent 2 (initial_state breaking_agent {})))
     = [broken_call ''c1'', broken_call ''c2'']"
  "batch_errors breaking_agent (detect_round breaking_agent
       (tool_rounds breaking_agent 2 (initial_state breaking_agent {})))
     = [Some (''broken'', ''boom''), Some (''broken'', ''boom'')]"
  "consecutive_tool_failures (tool_batch breaking_agent (detect_round breaking_agent
       (tool_rounds breaking_agent 2 (initial_state breaking_agent {})))) = 2"
  "tool_error_history (tool_batch breaking_agent (detect_round breaking_agent
       (tool_rounds breaking_agent 2 (initial_state breaking_agent {}))))
     = [(''broken'', ''boom''), (''broken'', ''boom''), (''broken'', ''boom''),
        (''broken'', ''boom'')]"
proof -
  let ?s2 = "tool_rounds breaking_agent 2 (initial_state breaking_agent {})"
  let ?d = "detect_round breaking_agent ?s2"
  have d: "consecutive_tool_failures ?d = 2"
    "tool_error_history ?d = [(''broken'', ''boom''), (''broken'', ''boom'')]"
    unfolding detect_round_frame by (rule breaking_two_rounds)+
  show "tool_calls_check ?d = [broken_call ''c1'', broken_call ''c2'']"
    by (simp add: breaking_detect breaking_two_rounds)
  show e: "batch_errors breaking_agent ?d = [Some (''broken'', ''boom''), Some (''broken'', ''boom'')]"
    by (simp add: breaking_batch_errors breaking_two_rounds)
  show "consecutive_tool_failures (tool_batch breaking_agent ?d) = 2"
    by (simp add: tool_batch_outcome e d)
  show "tool_error_history (tool_batch breaking_agent ?d)
     = [(''broken'', ''boom''), (''broken'', ''boom''), (''broken'', ''boom''),
        (''broken'', ''boom'')]"
    by (simp add: tool_batch_outcome e d)
qed

text \<open>
  Claim C4 as stated fails: in the third failing round of a real turn the model asks for
  two calls; the first failure is the third consecutive one, yet the second call is
  executed as well (two more tool invocations) before the fallback is triggered.
\<close>

theorem fallback_runs_whole_batch_counterexample:
  "tool_calls_check (detect_round breaking_agent
       (tool_rounds breaking_agent 2 (initial_state breaking_agent {})))
     = [broken_call ''c1'', broken_call ''c2'']
   \<and> last (emitted (tool_round breaking_agent (detect_round breaking_agent
       (tool_rounds breaking_agent 2 (initial_state breaking_agent {})))))
     = FallbackTriggered 3
   \<and> length (tool_invocations (tool_round breaking_agent (detect_round breaking_agent
       (tool_rounds breaking_agent 2 (initial_state breaking_agent {})))))
     = length (tool_invocations (detect_round breaking_agent
       (tool_rounds breaking_agent 2 (initial_state breaking_agent {})))) + 2"
proof -
  let ?d = "detect_round breaking_agent (tool_rounds breaking_agent 2 (initial_state breaking_agent {}))"
  let ?b = "tool_batch breaking_agent ?d"
  have "current_round_has_error ?b" "consecutive_tool_failures ?b = 2"
    by (simp_all add: tool_batch_outcome(1) breaking_third_batch)
  then have "tool_round breaking_agent ?d
      = ?b\<lparr>shared_history :=
             shared_history ?b @ [user_message (fallback_prompt (tool_error_history ?b))],
           emitted := emitted ?b @ [FallbackTriggered (Suc (consecutive_tool_failures ?b))],
           consecutive_tool_failures := 0, tool_error_history := []\<rparr>"
    by (simp add: tool_round_def update_failures_triggered max_consecutive_failures_def)
  moreover have "length (tool_invocations ?b) = length (tool_invocations ?d) + 2"
    by (simp add: tool_batch_invoked breaking_third_batch breaking_registered)
  ultimately show ?thesis
    using \<open>consecutive_tool_failures ?b = 2\<close> by (simp add: breaking_third_batch)
qed

text \<open>
  The amended statement on the same turn: after round 1 the counter is 1; in round 3 it
  reaches the threshold from 2, the fallback message follows the batch, the counter and
  the history are reset, and the loop goes on with round 4.
\<close>

theorem fallback_after_batch_witness:
  "failures (batch_errors breaking_agent (detect_round breaking_agent (initial_state breaking_agent {})))
     = [(''broken'', ''boom'')]
   \<and> consecutive_tool_failures
       (tool_round breaking_agent (detect_round breaking_agent (initial_state breaking_agent {}))) = 1
   \<and> failures (batch_errors breaking_agent (detect_round breaking_agent
       (tool_rounds breaking_agent 2 (initial_state breaking_agent {}))))
     = [(''broken'', ''boom''), (''broken'', ''boom'')]
   \<and> consecutive_tool_failures (tool_batch breaking_agent (detect_round breaking_agent
       (tool_rounds breaking_agent 2 (initial_state breaking_agent {})))) = 2
   \<and> shared_history (tool_round breaking_agent (detect_round breaking_agent
       (tool_rounds breaking_agent 2 (initial_state breaking_agent {}))))
     = shared_history (tool_batch breaking_agent (detect_round breaking_agent
         (tool_rounds breaking_agent 2 (initial_state breaking_agent {}))))
       @ [user_message (fallback_prompt
            [(''broken'', ''boom''), (''broken'', ''boom''), (''broken'', ''boom''),
             (''broken'', ''boom'')])]
   \<and> consecutive_tool_failures (tool_round breaking_agent (detect_round breaking_agent
       (tool_rounds breaking_agent 2 (initial_state breaking_agent {})))) = 0
   \<and> tool_error_history (tool_round breaking_agent (detect_round breaking_agent
       (tool_rounds breaking_agent 2 (initial_state breaking_agent {})))) = []
   \<and> round_loop breaking_agent 25 2 (tool_rounds breaking_agent 2 (initial_state breaking_agent {}))
       = round_loop breaking_agent 25 3
           (tool_round breaking_agent (detect_round breaking_agent
              (tool_rounds breaking_agent 2 (initial_state breaking_agent {}))))"
proof -
  let ?s0 = "initial_state breaking_agent {}"
  let ?s2 = "tool_rounds breaking_agent 2 ?s0"
  have first: "failures (batch_errors breaking_agent (detect_round breaking_agent ?s0))
      = [(''broken'', ''boom'')]"
    "consecutive_tool_failures (tool_batch breaking_agent (detect_round breaking_agent ?s0)) = 0"
    by (simp_all add: breaking_batch_errors tool_batch_outcome detect_round_frame initial_state_def)
  note low = fallback_after_batch
    [where a = breaking_agent and s = "detect_round breaking_agent ?s0" and ri = 0 and mx = 25
       and ?s0.0 = ?s0 and tc = "broken_call ''c1''" and n = 1 and i = 1]
  note high = fallback_after_batch
    [where a = breaking_agent and s = "detect_round breaking_agent ?s2" and ri = 2 and mx = 25
       and ?s0.0 = ?s2 and tc = "broken_call ''c1''" and n = 2 and i = 1]
  have one: "consecutive_tool_failures
      (tool_round breaking_agent (detect_round breaking_agent ?s0)) = 1"
    using low first by simp
  have third: "tool_round breaking_agent (detect_round breaking_agent ?s2)
      = (tool_batch breaking_agent (detect_round breaking_agent ?s2))
          \<lparr>shared_history :=
             shared_history (tool_batch breaking_agent (detect_round breaking_agent ?s2))
             @ [user_message (fallback_prompt
                  (tool_error_history (tool_batch breaking_agent (detect_round breaking_agent ?s2))))],
           emitted :=
             emitted (tool_batch breaking_agent (detect_round breaking_agent ?s2))
             @ [FallbackTriggered (Suc (consecutive_tool_failures
                  (tool_batch breaking_agent (detect_round breaking_agent ?s2))))],
           consecutive_tool_failures := 0, tool_error_history := []\<rparr>"
    using high by (simp add: breaking_third_batch)
  have loop: "round_loop breaking_agent 25 2 ?s2
      = round_loop breaking_agent 25 3 (tool_round breaking_agent (detect_round breaking_agent ?s2))"
    using high by (simp add: breaking_detect)
  show ?thesis
    using first(1) one loop
    by (simp add: third breaking_third_batch)
qed

section \<open>The retry without non-text content\<close>

lemma failing_runs:
  "run_error (first_run failing_agent s) = Some ''image input is not supported''"
  "run_error (retry_run failing_agent s) = Some ''image input is not supported''"
  "is_multimodal_error failing_agent ''image input is not supported''"
  "current_model_key failing_agent = ''m@u''"
  by (simp_all add: first_run_def retry_run_def failing_agent_def stub_agent_def
      llm_raising_def raises_def)

text \<open>
  Claim C5, as stated, fails where it says that the model is remembered as text-only
  only after a successful downgrade: here the retry raises as well, and the model's key
  is in \<open>_non_multimodal_models\<close> all the same. The key is added when the error is
  recognised, before the retry.
\<close>

theorem marked_without_downgrade_counterexample:
  "current_model_key failing_agent \<notin> non_multimodal_models (initial_state failing_agent {})
   \<and> run_error (retry_run failing_agent (initial_state failing_agent {}))
       = Some ''image input is not supported''
   \<and> current_model_key failing_agent
       \<in> non_multimodal_models (detect_round failing_agent (initial_state failing_agent {}))"
  using detect_round_retry_failed [of failing_agent "initial_state failing_agent {}"]
  by (simp add: failing_runs no_decision_fields after_retry_fields initial_state_def)

text \<open>
  Claim C5, amended. When the first invocation of a round raises an error that matches
  the multimodal signature, the model's key is added to the set of text-only models at
  once (a set: a key is in it at most once), and the model is invoked exactly once more,
  on the converted messages; if that raises too, the round decides for an answer and the
  turn returns. An error that does not match is not retried and ends the turn in the
  same way. A turn that starts with the key in the set builds its history with
  \<open>force_text_only\<close>.
\<close>

theorem multimodal_retry_once:
  "(\<forall>e. run_error (first_run a s) = Some e \<and> is_multimodal_error a e \<longrightarrow>
        llm_invocations (detect_round a s)
          = llm_invocations s
            @ [tools_messages a s, convert_multimodal_to_text a (tools_messages a s)]
        \<and> non_multimodal_models (detect_round a s)
          = insert (current_model_key a) (non_multimodal_models s)
        \<and> (run_error (retry_run a s) \<noteq> None \<longrightarrow>
             decide (detect_round a s) = ANSWER_DECIDED
             \<and> (ri < mx \<longrightarrow> fst (round_loop a mx ri s) = Answered)))
   \<and> (\<forall>e. run_error (first_run a s) = Some e \<and> \<not> is_multimodal_error a e \<longrightarrow>
        llm_invocations (detect_round a s) = llm_invocations s @ [tools_messages a s]
        \<and> non_multimodal_models (detect_round a s) = non_multimodal_models s
        \<and> decide (detect_round a s) = ANSWER_DECIDED
        \<and> (ri < mx \<longrightarrow> fst (round_loop a mx ri s) = Answered))
   \<and> (run_error (first_run a s) = None \<longrightarrow>
        llm_invocations (detect_round a s) = llm_invocations s @ [tools_messages a s]
        \<and> non_multimodal_models (detect_round a s) = non_multimodal_models s)
   \<and> (current_model_key a \<in> marked \<longrightarrow>
        shared_history (initial_state a marked) = build_shared_history a True)"
proof -
  have retried: "\<forall>e. run_error (first_run a s) = Some e \<and> is_multimodal_error a e \<longrightarrow>
        llm_invocations (detect_round a s)
          = llm_invocations s
            @ [tools_messages a s, convert_multimodal_to_text a (tools_messages a s)]
        \<and> non_multimodal_models (detect_round a s)
          = insert (current_model_key a) (non_multimodal_models s)
        \<and> (run_error (retry_run a s) \<noteq> None \<longrightarrow>
             decide (detect_round a s) = ANSWER_DECIDED
             \<and> (ri < mx \<longrightarrow> fst (round_loop a mx ri s) = Answered))"
  proof (intro allI impI)
    fix e
    assume e: "run_error (first_run a s) = Some e \<and> is_multimodal_error a e"
    show "llm_invocations (detect_round a s)
          = llm_invocations s
            @ [tools_messages a s, convert_multimodal_to_text a (tools_messages a s)]
        \<and> non_multimodal_models (detect_round a s)
          = insert (current_model_key a) (non_multimodal_models s)
        \<and> (run_error (retry_run a s) \<noteq> None \<longrightarrow>
             decide (detect_round a s) = ANSWER_DECIDED
             \<and> (ri < mx \<longrightarrow> fst (round_loop a mx ri s) = Answered))"
    proof (cases "run_error (retry_run a s)")
      case None
      with e show ?thesis
        by (simp add: detect_round_retried after_retry_fields)
    next
      case (Some e2)
      with e have "detect_round a s = no_decision (after_retry a s)"
        by (simp add: detect_round_retry_failed)
      then show ?thesis
        using Some
        by (simp add: no_decision_fields after_retry_fields decide_def round_loop_answer)
    qed
  qed
  have failed: "\<forall>e. run_error (first_run a s) = Some e \<and> \<not> is_multimodal_error a e \<longrightarrow>
        llm_invocations (detect_round a s) = llm_invocations s @ [tools_messages a s]
        \<and> non_multimodal_models (detect_round a s) = non_multimodal_models s
        \<and> decide (detect_round a s) = ANSWER_DECIDED
        \<and> (ri < mx \<longrightarrow> fst (round_loop a mx ri s) = Answered)"
  proof (intro allI impI)
    fix e
    assume "run_error (first_run a s) = Some e \<and> \<not> is_multimodal_error a e"
    then have "detect_round a s = no_decision (after_first a s)"
      by (simp add: detect_round_failed)
    then show "llm_invocations (detect_round a s) = llm_invocations s @ [tools_messages a s]
        \<and> non_multimodal_models (detect_round a s) = non_multimodal_models s
        \<and> decide (detect_round a s) = ANSWER_DECIDED
        \<and> (ri < mx \<longrightarrow> fst (round_loop a mx ri s) = Answered)"
      by (simp add: no_decision_fields after_first_fields decide_def round_loop_answer)
  qed
  have completed: "run_error (first_run a s) = None \<longrightarrow>
        llm_invocations (detect_round a s) = llm_invocations s @ [tools_messages a s]
        \<and> non_multimodal_models (detect_round a s) = non_multimodal_models s"
    by (simp add: detect_round_completed after_first_fields)
  have later: "current_model_key a \<in> marked \<longrightarrow>
        shared_history (initial_state a marked) = build_shared_history a True"
    by (simp add: initial_state_def)
  from retried failed completed later show ?thesis by blast
qed

text \<open>C5 on the agent whose model raises the multimodal error at every invocation.\<close>

theorem multimodal_retry_once_witness:
  "llm_invocations (detect_round failing_agent (initial_state failing_agent {}))
     = [tools_messages failing_agent (initial_state failing_agent {}),
        convert_multimodal_to_text failing_agent
          (tools_messages failing_agent (initial_state failing_agent {}))]
   \<and> non_multimodal_models (detect_round failing_agent (initial_state failing_agent {})) = {''m@u''}
   \<and> fst (round_loop failing_agent 25 0 (initial_state failing_agent {})) = Answered
   \<and> shared_history (initial_state failing_agent {''m@u''}) = build_shared_history failing_agent True"
  using multimodal_retry_once
    [where a = failing_agent and s = "initial_state failing_agent {}" and ri = 0 and mx = 25
       and marked = "{''m@u''}"]
  by (simp add: failing_runs initial_state_counts)
    (simp add: initial_state_def)

section \<open>Facts about the pipeline's functions\<close>

lemma role_exec_tool_call_frame:
  "p_llm_invocations (role_exec_tool_call orch al rid i tc s) = p_llm_invocations s"
  "p_shared_history (role_exec_tool_call orch al rid i tc s) = p_shared_history s"
  "p_any_streamed (role_exec_tool_call orch al rid i tc s) = p_any_streamed s"
  "p_role_outputs (role_exec_tool_call orch al rid i tc s) = p_role_outputs s"
  by (simp_all add: role_exec_tool_call_def p_emit_def Let_def split: option.splits sum.splits)

lemma role_exec_tool_call_counts:
  "count_events is_response_start (p_emitted (role_exec_tool_call orch al rid i tc s))
     = count_events is_response_start (p_emitted s)"
  "count_events is_response_end (p_emitted (role_exec_tool_call orch al rid i tc s))
     = count_events is_response_end (p_emitted s)"
  "count_events is_error (p_emitted (role_exec_tool_call orch al rid i tc s))
     = count_events is_error (p_emitted s)"
  by (simp_all add: role_exec_tool_call_def p_emit_def Let_def split: option.splits sum.splits)

lemma role_exec_tool_call_messages:
  "\<exists>res. p_messages (role_exec_tool_call orch al rid i tc s)
           = p_messages s @ [tool_message (tool_id_of i tc) (tool_name_of tc) res]"
  by (auto simp add: role_exec_tool_call_def p_emit_def Let_def split: option.splits sum.splits)

lemma role_tool_calls_frame:
  "p_llm_invocations (role_tool_calls orch al rid i tcs s) = p_llm_invocations s"
  "p_shared_history (role_tool_calls orch al rid i tcs s) = p_shared_history s"
  "p_any_streamed (role_tool_calls orch al rid i tcs s) = p_any_streamed s"
  "p_role_outputs (role_tool_calls orch al rid i tcs s) = p_role_outputs s"
  by (induction tcs arbitrary: i s; simp add: role_exec_tool_call_frame)+

lemma role_tool_calls_counts:
  "count_events is_response_start (p_emitted (role_tool_calls orch al rid i tcs s))
     = count_events is_response_start (p_emitted s)"
  "count_events is_response_end (p_emitted (role_tool_calls orch al rid i tcs s))
     = count_events is_response_end (p_emitted s)"
  "count_events is_error (p_emitted (role_tool_calls orch al rid i tcs s))
     = count_events is_error (p_emitted s)"
  by (induction tcs arbitrary: i s; simp add: role_exec_tool_call_counts)+

lemma role_tool_calls_messages:
  "\<exists>new. p_messages (role_tool_calls orch al rid i tcs s) = p_messages s @ new
         \<and> map msg_role new = replicate (length tcs) Tool
         \<and> map msg_tool_call_id new = map (\<lambda>(j, c). Some (tool_id_of j c)) (enumerate i tcs)"
proof (induction tcs arbitrary: i s)
  case Nil
  then show ?case by simp
next
  case (Cons tc tcs)
  obtain res where h: "p_messages (role_exec_tool_call orch al rid i tc s)
      = p_messages s @ [tool_message (tool_id_of i tc) (tool_name_of tc) res]"
    using role_exec_tool_call_messages by blast
  obtain new where n:
      "p_messages (role_tool_calls orch al rid (Suc i) tcs (role_exec_tool_call orch al rid i tc s))
        = p_messages (role_exec_tool_call orch al rid i tc s) @ new"
      "map msg_role new = replicate (length tcs) Tool"
      "map msg_tool_call_id new = map (\<lambda>(j, c). Some (tool_id_of j c)) (enumerate (Suc i) tcs)"
    using Cons.IH by blast
  let ?new = "tool_message (tool_id_of i tc) (tool_name_of tc) res # new"
  have "p_messages (role_tool_calls orch al rid i (tc # tcs) s) = p_messages s @ ?new"
    using h n by simp
  moreover have "map msg_role ?new = replicate (length (tc # tcs)) Tool"
    using n by (simp add: tool_message_def)
  moreover have "map msg_tool_call_id ?new
      = map (\<lambda>(j, c). Some (tool_id_of j c)) (enumerate i (tc # tcs))"
    using n by (simp add: tool_message_def)
  ultimately show ?case by blast
qed

lemma role_tool_batch_frame:
  "p_llm_invocations (role_tool_batch orch al rid s) = p_llm_invocations s"
  "p_shared_history (role_tool_batch orch al rid s) = p_shared_history s"
  "p_any_streamed (role_tool_batch orch al rid s) = p_any_streamed s"
  "p_role_outputs (role_tool_batch orch al rid s) = p_role_outputs s"
  by (simp_all add: role_tool_batch_def role_tool_calls_frame p_emit_def)

lemma role_tool_batch_counts:
  "count_events is_response_start (p_emitted (role_tool_batch orch al rid s))
     = count_events is_response_start (p_emitted s)"
  "count_events is_response_end (p_emitted (role_tool_batch orch al rid s))
     = count_events is_response_end (p_emitted s)"
  "count_events is_error (p_emitted (role_tool_batch orch al rid s))
     = count_events is_error (p_emitted s)"
  by (simp_all add: role_tool_batch_def role_tool_calls_counts p_emit_def)

lemma role_tool_batch_messages:
  "\<exists>new. p_messages (role_tool_batch orch al rid s) = p_messages s @ new
         \<and> map msg_role new = replicate (length (p_tool_calls s)) Tool
         \<and> map msg_tool_call_id new = map Some (batch_ids (p_tool_calls s))"
proof -
  obtain new where
    "p_messages (role_tool_batch orch al rid s)
       = p_messages (p_emit (ToolPlan (length (p_tool_calls s))) s) @ new"
    "map msg_role new = replicate (length (p_tool_calls s)) Tool"
    "map msg_tool_call_id new
       = map (\<lambda>(j, c). Some (tool_id_of j c)) (enumerate 1 (p_tool_calls s))"
    unfolding role_tool_batch_def using role_tool_calls_messages by blast
  then show ?thesis
    by (auto simp: p_emit_def batch_ids_def case_prod_unfold)
qed

section \<open>Every call is answered\<close>

lemma answers_batch:
  assumes "distinct ids" "map msg_role new = replicate (length ids) Tool"
    "map msg_tool_call_id new = map Some ids"
  shows "answers tid new = (if tid \<in> set ids then 1 else 0)"
  using assms answers_tool_messages [of new ids tid] distinct_occurs_once [of ids tid]
  by simp

lemma length_batch_ids [simp]: "length (batch_ids calls) = length calls"
  by (simp add: batch_ids_def)

lemma call_id_in_batch_ids:
  assumes "c \<in> set calls" "call_id c = Some tid" "tid \<noteq> []"
  shows "tid \<in> set (batch_ids calls)"
proof -
  from assms(1) obtain k where k: "k < length calls" "calls ! k = c"
    by (auto simp: in_set_conv_nth)
  then have "(1 + k, c) \<in> set (enumerate 1 calls)"
    by (auto simp: in_set_enumerate_eq)
  then have "tool_id_of (1 + k) c \<in> set (batch_ids calls)"
    unfolding batch_ids_def by force
  moreover have "tool_id_of (1 + k) c = tid"
    using assms(2,3) by (simp add: tool_id_of_def str_or_def)
  ultimately show ?thesis by simp
qed

lemma update_failures_appends:
  "\<exists>fb. shared_history (update_failures s) = shared_history s @ fb \<and> (\<forall>tid. answers tid fb = 0)"
proof (cases "current_round_has_error s \<and> max_consecutive_failures \<le> Suc (consecutive_tool_failures s)")
  case True
  then have "shared_history (update_failures s)
      = shared_history s @ [user_message (fallback_prompt (tool_error_history s))]"
    by (simp add: update_failures_triggered)
  moreover have "\<forall>tid. answers tid [user_message (fallback_prompt (tool_error_history s))] = 0"
    by (simp add: answers_Cons user_message_def)
  ultimately show ?thesis by blast
next
  case False
  then have "shared_history (update_failures s) = shared_history s @ []"
    by (simp add: update_failures_def Let_def)
  then show ?thesis by (metis answers_Nil)
qed

lemma detect_round_invokes:
  "\<exists>rest. llm_invocations (detect_round a s) = llm_invocations s @ tools_messages a s # rest"
  by (cases rule: detect_round_cases [of a s]; simp add: detect_fields)

lemma on_role_event_frame:
  "p_messages (on_role_event rid e s) = p_messages s"
  "p_llm_invocations (on_role_event rid e s) = p_llm_invocations s"
  by (cases e; simp add: p_emit_def Let_def split: option.splits)+

lemma role_stream_loop_frame:
  "p_messages (role_stream_loop rid evs s) = p_messages s"
  "p_llm_invocations (role_stream_loop rid evs s) = p_llm_invocations s"
  by (induction evs arbitrary: s; simp add: on_role_event_frame)+

lemma role_detect_frame:
  "p_messages (role_detect rid l s) = p_messages s"
  "p_llm_invocations (role_detect rid l s) = p_llm_invocations s @ [p_messages s]"
  by (simp_all add: role_detect_def role_stream_loop_frame)

lemma role_loop_tool:
  "ti < max_tool_iterations \<Longrightarrow> run_error (role_run l s) = None \<Longrightarrow>
   p_tool_calls (role_detect rid l s) \<noteq> [] \<Longrightarrow>
     role_loop orch al rid l ti s
       = role_loop orch al rid l (Suc ti) (role_tool_batch orch al rid (role_detect rid l s))"
  by (subst role_loop.simps) simp

lemma run_role_begin:
  "run_role orch spec d r s =
     (let s1 = role_loop orch (tools_allowlist spec) (str_or (role_id r) ''role'')
                 (if role_model_profile r \<noteq> [] then
                    (case get_llm_bundle orch (role_model_profile r) of
                       Inr b \<Rightarrow> b | Inl e \<Rightarrow> d)
                  else d)
                 0 (role_begin (str_or (role_system_prompt r) []) s)
      in s1\<lparr>p_role_outputs :=
               AList.update (str_or (role_id r) ''role'') (p_role_last_content s1)
                 (p_role_outputs s1)\<rparr>)"
  by (simp add: run_role_def role_begin_def Let_def)

text \<open>With well-formed ids every call is answered under the id the model gave it.\<close>

lemma enumerate_model_ids:
  "list_all (\<lambda>c. case call_id c of None \<Rightarrow> False | Some tid \<Rightarrow> tid \<noteq> []) calls \<Longrightarrow>
     map (\<lambda>(i, c). tool_id_of i c) (enumerate n calls) = map (\<lambda>c. the (call_id c)) calls"
  by (induction calls arbitrary: n) (auto simp: tool_id_of_def str_or_def split: option.splits)

lemma batch_ids_model_ids:
  assumes "model_ids_ok calls"
  shows "batch_ids calls = map (\<lambda>c. the (call_id c)) calls" "distinct (batch_ids calls)"
proof -
  from assms have all: "list_all (\<lambda>c. case call_id c of None \<Rightarrow> False | Some tid \<Rightarrow> tid \<noteq> []) calls"
    and dist: "distinct (map call_id calls)"
    by (simp_all add: model_ids_ok_def)
  show ids: "batch_ids calls = map (\<lambda>c. the (call_id c)) calls"
    using all by (simp add: batch_ids_def enumerate_model_ids)
  define ys where "ys = map (\<lambda>c. the (call_id c)) calls"
  have "map call_id calls = map Some ys"
    unfolding ys_def using all by (induction calls) (auto split: option.splits)
  with dist have "distinct (map Some ys)"
    by simp
  then have "distinct ys"
    by (simp add: distinct_map)
  then show "distinct (batch_ids calls)"
    unfolding ids ys_def .
qed

lemma answers_model_ids:
  assumes "model_ids_ok calls" "map msg_role new = replicate (length calls) Tool"
    "map msg_tool_call_id new = map Some (batch_ids calls)" "c \<in> set calls"
  shows "answers (the (call_id c)) new = 1"
proof -
  have "the (call_id c) \<in> set (batch_ids calls)"
    using assms(1,4) by (simp add: batch_ids_model_ids(1))
  then show ?thesis
    using answers_batch [of "batch_ids calls" new "the (call_id c)"] assms
    by (simp add: batch_ids_model_ids(2))
qed

lemma tool_round_history:
  "\<exists>new fb. shared_history (tool_round a s)
             = shared_history s @ assistant_tool_calls_message (tool_calls_check s) # new @ fb
         \<and> map msg_role new = replicate (length (tool_calls_check s)) Tool
         \<and> map msg_tool_call_id new = map Some (batch_ids (tool_calls_check s))
         \<and> (\<forall>tid. answers tid fb = 0)"
proof -
  obtain new where new: "shared_history (tool_batch a s)
        = shared_history s @ assistant_tool_calls_message (tool_calls_check s) # new"
      "map msg_role new = replicate (length (tool_calls_check s)) Tool"
      "map msg_tool_call_id new = map Some (batch_ids (tool_calls_check s))"
    using tool_batch_history by blast
  obtain fb where fb: "shared_history (update_failures (tool_batch a s))
        = shared_history (tool_batch a s) @ fb" "\<forall>tid. answers tid fb = 0"
    using update_failures_appends by blast
  have "shared_history (tool_round a s)
      = shared_history s @ assistant_tool_calls_message (tool_calls_check s) # new @ fb"
    using new(1) fb(1) by (simp add: tool_round_def)
  with new(2,3) fb(2) show ?thesis by blast
qed

text \<open>
  Claim C1, amended. In a round of the single agent that asks for tools, and in an
  iteration of a role that does, the loop goes on only after the batch has appended
  exactly one tool message per call, in request order, whatever happens to the call
  (unknown tool, raising tool, rejection by the allowlist). The message of a call is
  filed under the id the model gave when that id is not empty, and under \<open>call_i\<close>, \<open>i\<close>
  the position of the call, otherwise. No model invocation is made in between, and the
  next invocation reads the history with these messages. When the ids of the model are
  well formed (none missing or empty, no two equal), every id is answered by exactly one
  of the appended messages.
\<close>

theorem every_call_answered_once:
  "(ri < mx \<and> tool_calls_check (detect_round a s) \<noteq> [] \<longrightarrow>
      (\<exists>new fb rest.
         round_loop a mx ri s = round_loop a mx (Suc ri) (tool_round a (detect_round a s))
         \<and> shared_history (tool_round a (detect_round a s))
             = shared_history s
               @ assistant_tool_calls_message (tool_calls_check (detect_round a s)) # new @ fb
         \<and> map msg_role new = replicate (length (tool_calls_check (detect_round a s))) Tool
         \<and> map msg_tool_call_id new = map Some (batch_ids (tool_calls_check (detect_round a s)))
         \<and> (\<forall>tid. answers tid fb = 0)
         \<and> llm_invocations (tool_round a (detect_round a s)) = llm_invocations (detect_round a s)
         \<and> llm_invocations (detect_round a (tool_round a (detect_round a s)))
             = llm_invocations (detect_round a s)
               @ (system_message (tools_system_prompt a)
                  # shared_history (tool_round a (detect_round a s))) # rest
         \<and> (model_ids_ok (tool_calls_check (detect_round a s)) \<longrightarrow>
              batch_ids (tool_calls_check (detect_round a s))
                = map (\<lambda>c. the (call_id c)) (tool_calls_check (detect_round a s))
              \<and> (\<forall>c \<in> set (tool_calls_check (detect_round a s)).
                   answers (the (call_id c))
                     (assistant_tool_calls_message (tool_calls_check (detect_round a s))
                      # new @ fb) = 1))))
   \<and> (ti < max_tool_iterations \<and> run_error (role_run l p) = None
        \<and> p_tool_calls (role_detect rid l p) \<noteq> [] \<longrightarrow>
      (\<exists>new.
         role_loop orch al rid l ti p
           = role_loop orch al rid l (Suc ti) (role_tool_batch orch al rid (role_detect rid l p))
         \<and> p_messages (role_tool_batch orch al rid (role_detect rid l p)) = p_messages p @ new
         \<and> map msg_role new = replicate (length (p_tool_calls (role_detect rid l p))) Tool
         \<and> map msg_tool_call_id new = map Some (batch_ids (p_tool_calls (role_detect rid l p)))
         \<and> p_llm_invocations (role_tool_batch orch al rid (role_detect rid l p))
             = p_llm_invocations (role_detect rid l p)
         \<and> p_llm_invocations (role_detect rid l (role_tool_batch orch al rid (role_detect rid l p)))
             = p_llm_invocations (role_detect rid l p) @ [p_messages p @ new]
         \<and> (model_ids_ok (p_tool_calls (role_detect rid l p)) \<longrightarrow>
              batch_ids (p_tool_calls (role_detect rid l p))
                = map (\<lambda>c. the (call_id c)) (p_tool_calls (role_detect rid l p))
              \<and> (\<forall>c \<in> set (p_tool_calls (role_detect rid l p)).
                   answers (the (call_id c)) new = 1))))"
proof (intro conjI impI)
  let ?d = "detect_round a s"
  let ?calls = "tool_calls_check ?d"
  assume "ri < mx \<and> ?calls \<noteq> []"
  then have loop: "round_loop a mx ri s = round_loop a mx (Suc ri) (tool_round a ?d)"
    by (simp add: round_loop_tool decide_def)
  obtain new fb where h: "shared_history (tool_round a ?d)
        = shared_history ?d @ assistant_tool_calls_message ?calls # new @ fb"
      "map msg_role new = replicate (length ?calls) Tool"
      "map msg_tool_call_id new = map Some (batch_ids ?calls)"
      "\<forall>tid. answers tid fb = 0"
    using tool_round_history by blast
  obtain rest where next_inv: "llm_invocations (detect_round a (tool_round a ?d))
      = llm_invocations (tool_round a ?d) @ tools_messages a (tool_round a ?d) # rest"
    using detect_round_invokes by blast
  have once: "model_ids_ok ?calls \<longrightarrow>
      batch_ids ?calls = map (\<lambda>c. the (call_id c)) ?calls
      \<and> (\<forall>c \<in> set ?calls.
           answers (the (call_id c)) (assistant_tool_calls_message ?calls # new @ fb) = 1)"
    using h(2,3,4) answers_model_ids [of ?calls new]
    by (simp add: batch_ids_model_ids(1) answers_Cons assistant_tool_calls_message_def)
  from loop h next_inv once
  have "round_loop a mx ri s = round_loop a mx (Suc ri) (tool_round a ?d)
      \<and> shared_history (tool_round a ?d)
          = shared_history s @ assistant_tool_calls_message ?calls # new @ fb
      \<and> map msg_role new = replicate (length ?calls) Tool
      \<and> map msg_tool_call_id new = map Some (batch_ids ?calls)
      \<and> (\<forall>tid. answers tid fb = 0)
      \<and> llm_invocations (tool_round a ?d) = llm_invocations ?d
      \<and> llm_invocations (detect_round a (tool_round a ?d))
          = llm_invocations ?d
            @ (system_message (tools_system_prompt a) # shared_history (tool_round a ?d)) # rest
      \<and> (model_ids_ok ?calls \<longrightarrow>
           batch_ids ?calls = map (\<lambda>c. the (call_id c)) ?calls
           \<and> (\<forall>c \<in> set ?calls.
                answers (the (call_id c)) (assistant_tool_calls_message ?calls # new @ fb) = 1))"
    by (simp add: detect_round_frame tool_round_frame tools_messages_def)
  then show "\<exists>new fb rest.
      round_loop a mx ri s = round_loop a mx (Suc ri) (tool_round a ?d)
      \<and> shared_history (tool_round a ?d)
          = shared_history s @ assistant_tool_calls_message ?calls # new @ fb
      \<and> map msg_role new = replicate (length ?calls) Tool
      \<and> map msg_tool_call_id new = map Some (batch_ids ?calls)
      \<and> (\<forall>tid. answers tid fb = 0)
      \<and> llm_invocations (tool_round a ?d) = llm_invocations ?d
      \<and> llm_invocations (detect_round a (tool_round a ?d))
          = llm_invocations ?d
            @ (system_message (tools_system_prompt a) # shared_history (tool_round a ?d)) # rest
      \<and> (model_ids_ok ?calls \<longrightarrow>
           batch_ids ?calls = map (\<lambda>c. the (call_id c)) ?calls
           \<and> (\<forall>c \<in> set ?calls.
                answers (the (call_id c)) (assistant_tool_calls_message ?calls # new @ fb) = 1))"
    by blast
next
  let ?d = "role_detect rid l p"
  let ?calls = "p_tool_calls ?d"
  let ?b = "role_tool_batch orch al rid ?d"
  assume "ti < max_tool_iterations \<and> run_error (role_run l p) = None \<and> ?calls \<noteq> []"
  then have loop: "role_loop orch al rid l ti p = role_loop orch al rid l (Suc ti) ?b"
    by (simp add: role_loop_tool)
  obtain new where h: "p_messages ?b = p_messages ?d @ new"
      "map msg_role new = replicate (length ?calls) Tool"
      "map msg_tool_call_id new = map Some (batch_ids ?calls)"
    using role_tool_batch_messages by blast
  have once: "model_ids_ok ?calls \<longrightarrow>
      batch_ids ?calls = map (\<lambda>c. the (call_id c)) ?calls
      \<and> (\<forall>c \<in> set ?calls. answers (the (call_id c)) new = 1)"
    using h(2,3) answers_model_ids [of ?calls new]
    by (simp add: batch_ids_model_ids(1))
  from loop h once
  have "role_loop orch al rid l ti p = role_loop orch al rid l (Suc ti) ?b
      \<and> p_messages ?b = p_messages p @ new
      \<and> map msg_role new = replicate (length ?calls) Tool
      \<and> map msg_tool_call_id new = map Some (batch_ids ?calls)
      \<and> p_llm_invocations ?b = p_llm_invocations ?d
      \<and> p_llm_invocations (role_detect rid l ?b) = p_llm_invocations ?d @ [p_messages p @ new]
      \<and> (model_ids_ok ?calls \<longrightarrow>
           batch_ids ?calls = map (\<lambda>c. the (call_id c)) ?calls
           \<and> (\<forall>c \<in> set ?calls. answers (the (call_id c)) new = 1))"
    by (simp add: role_detect_frame role_tool_batch_frame)
  then show "\<exists>new.
      role_loop orch al rid l ti p = role_loop orch al rid l (Suc ti) ?b
      \<and> p_messages ?b = p_messages p @ new
      \<and> map msg_role new = replicate (length ?calls) Tool
      \<and> map msg_tool_call_id new = map Some (batch_ids ?calls)
      \<and> p_llm_invocations ?b = p_llm_invocations ?d
      \<and> p_llm_invocations (role_detect rid l ?b) = p_llm_invocations ?d @ [p_messages p @ new]
      \<and> (model_ids_ok ?calls \<longrightarrow>
           batch_ids ?calls = map (\<lambda>c. the (call_id c)) ?calls
           \<and> (\<forall>c \<in> set ?calls. answers (the (call_id c)) new = 1))"
    by blast
qed

section \<open>Response start and end of a pipeline run\<close>

lemma on_role_event_counts:
  "count_events is_response_start (p_emitted (on_role_event rid e s))
     = count_events is_response_start (p_emitted s)"
  "count_events is_response_end (p_emitted (on_role_event rid e s))
     = count_events is_response_end (p_emitted s)"
  "count_events is_error (p_emitted (on_role_event rid e s)) = count_events is_error (p_emitted s)"
  by (cases e; simp add: p_emit_def Let_def split: option.splits)+

lemma role_stream_loop_counts:
  "count_events is_response_start (p_emitted (role_stream_loop rid evs s))
     = count_events is_response_start (p_emitted s)"
  "count_events is_response_end (p_emitted (role_stream_loop rid evs s))
     = count_events is_response_end (p_emitted s)"
  "count_events is_error (p_emitted (role_stream_loop rid evs s))
     = count_events is_error (p_emitted s)"
  by (induction evs arbitrary: s; simp add: on_role_event_counts)+

lemma role_detect_counts:
  "count_events is_response_start (p_emitted (role_detect rid l s))
     = count_events is_response_start (p_emitted s)"
  "count_events is_response_end (p_emitted (role_detect rid l s))
     = count_events is_response_end (p_emitted s)"
  "count_events is_error (p_emitted (role_detect rid l s)) = count_events is_error (p_emitted s)"
  by (simp_all add: role_detect_def role_stream_loop_counts)

lemma role_finish_counts:
  "count_events is_response_start (p_emitted (role_finish rid s))
     = count_events is_response_start (p_emitted s)"
  "count_events is_response_end (p_emitted (role_finish rid s))
     = count_events is_response_end (p_emitted s)"
  "count_events is_error (p_emitted (role_finish rid s)) = count_events is_error (p_emitted s)"
  by (simp_all add: role_finish_def p_emit_def Let_def)

declare role_loop.simps [simp del]

lemma role_loop_counts:
  "count_events is_response_start (p_emitted (role_loop orch al rid l ti s))
     = count_events is_response_start (p_emitted s)
   \<and> count_events is_response_end (p_emitted (role_loop orch al rid l ti s))
     = count_events is_response_end (p_emitted s)
   \<and> count_events is_error (p_emitted (role_loop orch al rid l ti s))
     = count_events is_error (p_emitted s)"
proof (induction orch al rid l ti s rule: role_loop.induct)
  case (1 orch al rid l ti s)
  show ?case
  proof (cases "ti < max_tool_iterations")
    case False
    then show ?thesis by (subst role_loop.simps, subst role_loop.simps, subst role_loop.simps) simp
  next
    case True
    show ?thesis
    proof (cases "run_error (role_run l s)")
      case (Some e)
      with True have "role_loop orch al rid l ti s
          = p_emit (AiResponseChunk (role_failed_text rid e)) (role_detect rid l s)"
        by (subst role_loop.simps) simp
      then show ?thesis by (simp add: p_emit_def role_detect_counts)
    next
      case None
      show ?thesis
      proof (cases "p_tool_calls (role_detect rid l s) = []")
        case True
        with \<open>ti < max_tool_iterations\<close> None
        have "role_loop orch al rid l ti s = role_finish rid (role_detect rid l s)"
          by (subst role_loop.simps) simp
        then show ?thesis by (simp add: role_finish_counts role_detect_counts)
      next
        case False
        with \<open>ti < max_tool_iterations\<close> None
        have "role_loop orch al rid l ti s
            = role_loop orch al rid l (Suc ti) (role_tool_batch orch al rid (role_detect rid l s))"
          by (subst role_loop.simps) simp
        with "1.IH" [OF \<open>ti < max_tool_iterations\<close> None False] show ?thesis
          by (simp add: role_tool_batch_counts role_detect_counts)
      qed
    qed
  qed
qed

lemma run_role_counts:
  "count_events is_response_start (p_emitted (run_role orch spec d r s))
     = count_events is_response_start (p_emitted s)"
  "count_events is_response_end (p_emitted (run_role orch spec d r s))
     = count_events is_response_end (p_emitted s)"
  "count_events is_error (p_emitted (run_role orch spec d r s)) = count_events is_error (p_emitted s)"
  by (simp_all add: run_role_def Let_def role_loop_counts)

lemma run_roles_counts:
  "count_events is_response_start (p_emitted (run_roles orch spec d rs s))
     = count_events is_response_start (p_emitted s)"
  "count_events is_response_end (p_emitted (run_roles orch spec d rs s))
     = count_events is_response_end (p_emitted s)"
  "count_events is_error (p_emitted (run_roles orch spec d rs s)) = count_events is_error (p_emitted s)"
  by (induction rs arbitrary: s; simp add: run_role_counts)+

text \<open>A pipeline run whose backing profile resolves yields one \<open>response_start\<close>, one
  \<open>response_end\<close> and no \<open>error\<close>, whatever the roles do.\<close>

lemma pipeline_one_start_one_end:
  "get_llm_bundle orch backing_profile = Inr l \<Longrightarrow>
     count_events is_response_start (p_emitted (orchestrate orch backing_profile spec)) = 1
     \<and> count_events is_response_end (p_emitted (orchestrate orch backing_profile spec)) = 1
     \<and> count_events is_error (p_emitted (orchestrate orch backing_profile spec)) = 0"
  by (simp add: orchestrate_def Let_def p_emit_def run_roles_counts pipe_initial_def)

section \<open>What the construction of a binding restores\<close>

lemma restore_after_override:
  "env OPENAI_API_KEY = Some k \<Longrightarrow> env OPENAI_BASE_URL = Some b \<Longrightarrow>
     restore_env (Some k) (Some b) (override_env cfg env) = env"
  by (auto simp: restore_env_def override_env_def Let_def fun_upd_twist OPENAI_API_KEY_def
      OPENAI_BASE_URL_def)

lemma get_or_create_restores_when_set:
  "env OPENAI_API_KEY = Some k \<Longrightarrow> env OPENAI_BASE_URL = Some b \<Longrightarrow>
     snd (snd (get_or_create_llm_instances c mm env profile_id)) = env"
  by (simp add: get_or_create_llm_instances_def Let_def restore_after_override
      split: option.splits sum.splits)

lemma get_or_create_cached:
  "llm_cache mm (resolve_pid mm profile_id) = Some b \<Longrightarrow>
     get_or_create_llm_instances c mm env profile_id = (Inr b, mm, env)"
  by (simp add: get_or_create_llm_instances_def)

lemma get_or_create_caches:
  "get_or_create_llm_instances c mm env profile_id = (Inr b, mm', env') \<Longrightarrow>
     llm_cache mm' (resolve_pid mm profile_id) = Some b"
  by (auto simp: get_or_create_llm_instances_def Let_def split: option.splits sum.splits)

end
